theory Spec2Isabelle
  imports Complex_Main
begin

section \<open>JavaScript values\<close>

text \<open>
  The backend is a single JavaScript file. Its data is dynamically typed, so the model
  starts with the values of the language. A string is a list of 8-bit characters (the
  code units below 256). A number is \<open>NaN\<close>, an infinity or a finite value, the finite
  ones kept as rationals; where the program computes a number, the result is rounded by
  the runtime (\<open>round_double\<close> below).
  An object is the list of its own enumerable members in enumeration order; an array
  has its elements and, besides, the named members that an assignment may add to it.
  \<open>JNative\<close> stands for a function or object built into the runtime, by its name.
\<close>

datatype jsnum = Fin rat | PosInf | NegInf | NaN

datatype jsval =
    JUndefined
  | JNull
  | JBool bool
  | JNum jsnum
  | JStr string
  | JArr "jsval list" "(string \<times> jsval) list"
  | JObj "(string \<times> jsval) list"
  | JNative string

text \<open>A thrown exception, with the text that \<open>e.message\<close> reads.\<close>

datatype error = TypeError string | SyntaxError string | Error string

fun message :: "error \<Rightarrow> string" where
  "message (TypeError m) = m"
| "message (SyntaxError m) = m"
| "message (Error m) = m"

text \<open>
  What the runtime library computes and the program only calls: the JSON reader and
  writer, the conversions between numbers and strings, the text of a built-in, and the
  rounding of an exact result to a number of the language (an infinity when it is out of
  range). They are parameters of the model; every theorem holds for each choice of them.
\<close>

record runtime =
  json_parse :: "string \<Rightarrow> error + jsval"
  json_stringify :: "jsval \<Rightarrow> string"
  num_str :: "jsnum \<Rightarrow> string"
  str_num :: "string \<Rightarrow> jsnum"
  native_str :: "string \<Rightarrow> string"
  round_double :: "rat \<Rightarrow> jsnum"

subsection \<open>Truthiness and the logical operators\<close>

fun truthy :: "jsval \<Rightarrow> bool" where
  "truthy JUndefined = False"
| "truthy JNull = False"
| "truthy (JBool b) = b"
| "truthy (JNum n) = (n \<noteq> NaN \<and> n \<noteq> Fin 0)"
| "truthy (JStr s) = (s \<noteq> [])"
| "truthy (JArr xs ps) = True"
| "truthy (JObj kvs) = True"
| "truthy (JNative n) = True"

text \<open>\<open>a || b\<close>, both operands being free of effects where the program uses it.\<close>

definition js_or :: "jsval \<Rightarrow> jsval \<Rightarrow> jsval" where
  "js_or a b = (if truthy a then a else b)"

definition nullish :: "jsval \<Rightarrow> bool" where
  "nullish v = (v = JUndefined \<or> v = JNull)"

subsection \<open>Numbers\<close>

fun num_neg :: "jsnum \<Rightarrow> jsnum" where
  "num_neg (Fin x) = Fin (- x)"
| "num_neg PosInf = NegInf"
| "num_neg NegInf = PosInf"
| "num_neg NaN = NaN"

fun num_add :: "jsnum \<Rightarrow> jsnum \<Rightarrow> jsnum" where
  "num_add NaN b = NaN"
| "num_add a NaN = NaN"
| "num_add (Fin x) (Fin y) = Fin (x + y)"
| "num_add PosInf NegInf = NaN"
| "num_add NegInf PosInf = NaN"
| "num_add PosInf b = PosInf"
| "num_add a PosInf = PosInf"
| "num_add NegInf b = NegInf"
| "num_add a NegInf = NegInf"

definition num_sub :: "jsnum \<Rightarrow> jsnum \<Rightarrow> jsnum" where
  "num_sub a b = num_add a (num_neg b)"

fun num_mul :: "jsnum \<Rightarrow> jsnum \<Rightarrow> jsnum" where
  "num_mul NaN b = NaN"
| "num_mul a NaN = NaN"
| "num_mul (Fin x) (Fin y) = Fin (x * y)"
| "num_mul (Fin x) PosInf = (if x = 0 then NaN else if 0 < x then PosInf else NegInf)"
| "num_mul (Fin x) NegInf = (if x = 0 then NaN else if 0 < x then NegInf else PosInf)"
| "num_mul PosInf (Fin y) = (if y = 0 then NaN else if 0 < y then PosInf else NegInf)"
| "num_mul NegInf (Fin y) = (if y = 0 then NaN else if 0 < y then NegInf else PosInf)"
| "num_mul PosInf PosInf = PosInf"
| "num_mul NegInf NegInf = PosInf"
| "num_mul PosInf NegInf = NegInf"
| "num_mul NegInf PosInf = NegInf"

fun num_less :: "jsnum \<Rightarrow> jsnum \<Rightarrow> bool" where
  "num_less NaN b = False"
| "num_less a NaN = False"
| "num_less (Fin x) (Fin y) = (x < y)"
| "num_less a NegInf = False"
| "num_less PosInf b = False"
| "num_less NegInf b = True"
| "num_less a PosInf = True"

text \<open>\<open>a >= b\<close> and \<open>a > b\<close> on numbers: a comparison with \<open>NaN\<close> is false.\<close>

definition num_ge :: "jsnum \<Rightarrow> jsnum \<Rightarrow> bool" where
  "num_ge a b = (a \<noteq> NaN \<and> b \<noteq> NaN \<and> \<not> num_less a b)"

definition num_gt :: "jsnum \<Rightarrow> jsnum \<Rightarrow> bool" where
  "num_gt a b = num_less b a"

text \<open>The result of an arithmetic operation, as the runtime stores it.\<close>

fun rounded :: "runtime \<Rightarrow> jsnum \<Rightarrow> jsnum" where
  "rounded rt (Fin x) = round_double rt x"
| "rounded rt n = n"

subsection \<open>Conversion to strings and numbers\<close>

fun join :: "string \<Rightarrow> string list \<Rightarrow> string" where
  "join sep [] = []"
| "join sep [x] = x"
| "join sep (x # y # ys) = x @ sep @ join sep (y # ys)"

text \<open>
  \<open>String(v)\<close>, which a template literal applies too. An object is converted by its
  member \<open>toString\<close> when that is a function, and by \<open>valueOf\<close> otherwise. The members
  of the objects of this program come from JSON texts and are no functions, so an object
  with an own member \<open>toString\<close> hides the inherited function, its \<open>valueOf\<close> gives
  the object back, and the conversion throws. Every other object is converted by the
  inherited function. An array is its elements joined by commas, null and undefined
  elements giving the empty string; the first element that cannot be converted throws.
  An array with an own member \<open>join\<close> is converted as an object.
\<close>

definition not_primitive :: error where
  "not_primitive = TypeError ''Cannot convert object to primitive value''"

fun to_string :: "runtime \<Rightarrow> jsval \<Rightarrow> error + string"
  and element_strings :: "runtime \<Rightarrow> jsval list \<Rightarrow> error + string list" where
  "to_string rt JUndefined = Inr ''undefined''"
| "to_string rt JNull = Inr ''null''"
| "to_string rt (JBool b) = Inr (if b then ''true'' else ''false'')"
| "to_string rt (JNum n) = Inr (num_str rt n)"
| "to_string rt (JStr s) = Inr s"
| "to_string rt (JArr xs ps) =
     (if map_of ps ''toString'' \<noteq> None then Inl not_primitive
      else if map_of ps ''join'' \<noteq> None then Inr ''[object Array]''
      else case element_strings rt xs of
             Inl err \<Rightarrow> Inl err
           | Inr texts \<Rightarrow> Inr (join '','' texts))"
| "to_string rt (JObj kvs) =
     (if map_of kvs ''toString'' \<noteq> None then Inl not_primitive else Inr ''[object Object]'')"
| "to_string rt (JNative n) = Inr (native_str rt n)"
| "element_strings rt [] = Inr []"
| "element_strings rt (x # xs) =
     (case (if x = JUndefined \<or> x = JNull then Inr [] else to_string rt x) of
        Inl err \<Rightarrow> Inl err
      | Inr s \<Rightarrow>
          (case element_strings rt xs of
             Inl err \<Rightarrow> Inl err
           | Inr texts \<Rightarrow> Inr (s # texts)))"

text \<open>The conversion to a number that the arithmetic and relational operators apply.
  An object or array is converted through its string, and throws when that does.\<close>

fun to_number :: "runtime \<Rightarrow> jsval \<Rightarrow> error + jsnum" where
  "to_number rt JUndefined = Inr NaN"
| "to_number rt JNull = Inr (Fin 0)"
| "to_number rt (JBool b) = Inr (Fin (if b then 1 else 0))"
| "to_number rt (JNum n) = Inr n"
| "to_number rt (JStr s) = Inr (str_num rt s)"
| "to_number rt v =
     (case to_string rt v of Inl err \<Rightarrow> Inl err | Inr s \<Rightarrow> Inr (str_num rt s))"

subsection \<open>Members\<close>

fun show_nat :: "nat \<Rightarrow> string" where
  "show_nat n =
     (if n < 10 then [''0123456789'' ! n]
      else show_nat (n div 10) @ [''0123456789'' ! (n mod 10)])"

declare show_nat.simps [simp del]

text \<open>The index that a member name denotes in a sequence of \<open>n\<close> elements, if any.\<close>

definition index_of :: "string \<Rightarrow> nat \<Rightarrow> nat option" where
  "index_of k n = List.find (\<lambda>i. show_nat i = k) [0..<n]"

fun own_prop :: "jsval \<Rightarrow> string \<Rightarrow> jsval option" where
  "own_prop (JObj kvs) k = map_of kvs k"
| "own_prop (JArr xs ps) k =
     (if k = ''length'' then Some (JNum (Fin (of_nat (length xs))))
      else case index_of k (length xs) of
             Some i \<Rightarrow> Some (xs ! i)
           | None \<Rightarrow> map_of ps k)"
| "own_prop (JStr s) k =
     (if k = ''length'' then Some (JNum (Fin (of_nat (length s))))
      else case index_of k (length s) of
             Some i \<Rightarrow> Some (JStr [s ! i])
           | None \<Rightarrow> None)"
| "own_prop v k = None"

text \<open>
  The members every value inherits from the built-in prototypes. Their names are those
  of the language standard; their values are built-in functions. None of them is
  enumerable.
\<close>

definition natives :: "string \<Rightarrow> string list \<Rightarrow> (string \<times> jsval) list" where
  "natives home names = map (\<lambda>n. (n, JNative (home @ ''.'' @ n))) names"

definition object_prototype :: "(string \<times> jsval) list" where
  "object_prototype = natives ''Object.prototype''
     [''constructor'', ''hasOwnProperty'', ''isPrototypeOf'', ''propertyIsEnumerable'',
      ''toLocaleString'', ''toString'', ''valueOf'', ''__defineGetter__'',
      ''__defineSetter__'', ''__lookupGetter__'', ''__lookupSetter__'']"

definition array_prototype :: "(string \<times> jsval) list" where
  "array_prototype = natives ''Array.prototype''
     [''constructor'', ''at'', ''concat'', ''copyWithin'', ''entries'', ''every'', ''fill'',
      ''filter'', ''find'', ''findIndex'', ''findLast'', ''findLastIndex'', ''flat'',
      ''flatMap'', ''forEach'', ''includes'', ''indexOf'', ''join'', ''keys'',
      ''lastIndexOf'', ''map'', ''pop'', ''push'', ''reduce'', ''reduceRight'', ''reverse'',
      ''shift'', ''slice'', ''some'', ''sort'', ''splice'', ''toLocaleString'',
      ''toReversed'', ''toSorted'', ''toSpliced'', ''toString'', ''unshift'', ''values'',
      ''with'']"

definition string_prototype :: "(string \<times> jsval) list" where
  "string_prototype = natives ''String.prototype''
     [''constructor'', ''anchor'', ''at'', ''big'', ''blink'', ''bold'', ''charAt'',
      ''charCodeAt'', ''codePointAt'', ''concat'', ''endsWith'', ''fixed'', ''fontcolor'',
      ''fontsize'', ''includes'', ''indexOf'', ''isWellFormed'', ''italics'',
      ''lastIndexOf'', ''link'', ''localeCompare'', ''match'', ''matchAll'', ''normalize'',
      ''padEnd'', ''padStart'', ''repeat'', ''replace'', ''replaceAll'', ''search'',
      ''slice'', ''small'', ''split'', ''startsWith'', ''strike'', ''sub'', ''substr'',
      ''substring'', ''sup'', ''toLocaleLowerCase'', ''toLocaleUpperCase'',
      ''toLowerCase'', ''toString'', ''toUpperCase'', ''toWellFormed'', ''trim'',
      ''trimEnd'', ''trimLeft'', ''trimRight'', ''trimStart'', ''valueOf'']"

definition number_prototype :: "(string \<times> jsval) list" where
  "number_prototype = natives ''Number.prototype''
     [''constructor'', ''toExponential'', ''toFixed'', ''toLocaleString'', ''toPrecision'',
      ''toString'', ''valueOf'']"

definition boolean_prototype :: "(string \<times> jsval) list" where
  "boolean_prototype = natives ''Boolean.prototype'' [''constructor'', ''toString'', ''valueOf'']"

definition function_prototype :: "(string \<times> jsval) list" where
  "function_prototype = natives ''Function.prototype''
     [''constructor'', ''apply'', ''bind'', ''call'', ''toString'', ''length'', ''name'',
      ''arguments'', ''caller'']"

fun prototype_name :: "jsval \<Rightarrow> string" where
  "prototype_name (JArr xs ps) = ''Array.prototype''"
| "prototype_name (JStr s) = ''String.prototype''"
| "prototype_name (JNum n) = ''Number.prototype''"
| "prototype_name (JBool b) = ''Boolean.prototype''"
| "prototype_name (JNative n) = ''Function.prototype''"
| "prototype_name v = ''Object.prototype''"

fun prototype_chain :: "jsval \<Rightarrow> (string \<times> jsval) list" where
  "prototype_chain (JArr xs ps) = array_prototype @ object_prototype"
| "prototype_chain (JStr s) = string_prototype @ object_prototype"
| "prototype_chain (JNum n) = number_prototype @ object_prototype"
| "prototype_chain (JBool b) = boolean_prototype @ object_prototype"
| "prototype_chain (JNative n) = function_prototype @ object_prototype"
| "prototype_chain v = object_prototype"

definition inherited :: "jsval \<Rightarrow> string \<Rightarrow> jsval" where
  "inherited v k =
     (if k = ''__proto__'' then JNative (prototype_name v)
      else case map_of (prototype_chain v) k of Some x \<Rightarrow> x | None \<Rightarrow> JUndefined)"

text \<open>The read \<open>v[k]\<close> of a value that is neither null nor undefined.\<close>

definition read_prop :: "jsval \<Rightarrow> string \<Rightarrow> jsval" where
  "read_prop v k = (case own_prop v k of Some x \<Rightarrow> x | None \<Rightarrow> inherited v k)"

definition cannot_read :: "jsval \<Rightarrow> string \<Rightarrow> string" where
  "cannot_read v k =
     ''Cannot read properties of '' @ (if v = JNull then ''null'' else ''undefined'')
       @ '' (reading '' @ [CHR 0x27] @ k @ [CHR 0x27] @ '')''"

text \<open>The read \<open>v[k]\<close> in general: on null and undefined it throws.\<close>

definition get_prop :: "jsval \<Rightarrow> string \<Rightarrow> error + jsval" where
  "get_prop v k = (if nullish v then Inl (TypeError (cannot_read v k)) else Inr (read_prop v k))"

text \<open>\<open>Object.keys(v)\<close>, also the names a \<open>for ... in\<close> loop visits.\<close>

fun own_keys :: "jsval \<Rightarrow> string list" where
  "own_keys (JObj kvs) = map fst kvs"
| "own_keys (JArr xs ps) = map show_nat [0..<length xs] @ map fst ps"
| "own_keys (JStr s) = map show_nat [0..<length s]"
| "own_keys v = []"

fun put :: "(string \<times> jsval) list \<Rightarrow> string \<Rightarrow> jsval \<Rightarrow> (string \<times> jsval) list" where
  "put [] k v = [(k, v)]"
| "put (p # ps) k v = (if fst p = k then (k, v) # ps else p # put ps k v)"

text \<open>
  The assignment \<open>w.k = v\<close> for a name \<open>k\<close> that is neither an index nor \<open>length\<close>:
  an object or array gets or updates the member, on another value the assignment is
  dropped (the file is not in strict mode), on null and undefined it throws.
\<close>

fun set_prop :: "jsval \<Rightarrow> string \<Rightarrow> jsval \<Rightarrow> error + jsval" where
  "set_prop (JObj kvs) k v = Inr (JObj (put kvs k v))"
| "set_prop (JArr xs ps) k v = Inr (JArr xs (put ps k v))"
| "set_prop JUndefined k v =
     Inl (TypeError (''Cannot set properties of undefined (setting '' @ [CHR 0x27] @ k @ [CHR 0x27] @ '')''))"
| "set_prop JNull k v =
     Inl (TypeError (''Cannot set properties of null (setting '' @ [CHR 0x27] @ k @ [CHR 0x27] @ '')''))"
| "set_prop w k v = Inr w"

section \<open>The field mapper\<close>

text \<open>
  \<open>FIELD_MAPPINGS\<close>: for each key of a submission record, the spreadsheet headers and
  spellings that stand for it, in the order of the source.
\<close>

definition FIELD_MAPPINGS :: "(string \<times> string list) list" where
  "FIELD_MAPPINGS =
     [(''timestamp'', [''Date'', ''timestamp'', ''date'']),
      (''quotationNo'', [''Quotation No'', ''quotation_no'']),
      (''name'', [''Full Name'', ''Name'', ''name'']),
      (''phone'', [''Contact No'', ''Phone'', ''phone'']),
      (''email'', [''Mail Id'', ''Email'', ''email'']),
      (''city'', [''Location'', ''City'', ''city'']),
      (''address'', [''Full Address'', ''address'']),
      (''mainService'', [''Service'', ''service'']),
      (''onlineService'', [''Online Service'']),
      (''budget'', [''Budget'']),
      (''plotLength'', [''Plot Length'']),
      (''plotWidth'', [''Plot Width'']),
      (''archPlotArea'', [''Plot Area'']),
      (''archSetback'', [''Setback'']),
      (''typicalAreaAfterSetback'', [''Typical Area'']),
      (''archFloors'', [''Floors'']),
      (''archTerrace'', [''Terrace'']),
      (''archTotalBuiltArea'', [''Built Area'']),
      (''roadFacing'', [''Road Facing'']),
      (''noOfHouses'', [''Houses'']),
      (''rentalUnits'', [''Rentals'']),
      (''shopsUnits'', [''Shops'']),
      (''parkingUnits'', [''Parking'']),
      (''archLift'', [''Lift'']),
      (''archVastu'', [''Vastu'']),
      (''rooms'', [''Rooms'']),
      (''intFloorSelect'', [''Interior Floors'']),
      (''archSubService'', [''Sub Services'']),
      (''archSubTotal'', [''Sub Total'']),
      (''archGst'', [''GST'']),
      (''archTotal'', [''Total'']),
      (''intTotalBuiltArea'', [''Interior Area'']),
      (''constructionStage'', [''Construction Stage'']),
      (''intSubTotal'', [''Interior Subtotal'']),
      (''intGst'', [''Interior GST'']),
      (''intTotal'', [''Interior Total Cost'']),
      (''floorReq0'', [''Ground floor requirement'']),
      (''floorReq1'', [''Floor 1 requirement'']),
      (''floorReq2'', [''Floor 2 requirement'']),
      (''floorReq3'', [''Floor 3 requirement'']),
      (''floorReq4'', [''Floor 4 requirement'']),
      (''floorReq5'', [''Floor 5 requirement''])]"

text \<open>\<open>toLowerCase\<close> on 8-bit characters: the letters A to Z and the capital letters
  of Latin-1 have a lower case, every other character stays.\<close>

definition upper_chars :: string where
  "upper_chars = ''ABCDEFGHIJKLMNOPQRSTUVWXYZ'' @
     [CHR 0xC0, CHR 0xC1, CHR 0xC2, CHR 0xC3, CHR 0xC4, CHR 0xC5, CHR 0xC6, CHR 0xC7,
      CHR 0xC8, CHR 0xC9, CHR 0xCA, CHR 0xCB, CHR 0xCC, CHR 0xCD, CHR 0xCE, CHR 0xCF,
      CHR 0xD0, CHR 0xD1, CHR 0xD2, CHR 0xD3, CHR 0xD4, CHR 0xD5, CHR 0xD6, CHR 0xD8,
      CHR 0xD9, CHR 0xDA, CHR 0xDB, CHR 0xDC, CHR 0xDD, CHR 0xDE]"

definition lower_chars :: string where
  "lower_chars = ''abcdefghijklmnopqrstuvwxyz'' @
     [CHR 0xE0, CHR 0xE1, CHR 0xE2, CHR 0xE3, CHR 0xE4, CHR 0xE5, CHR 0xE6, CHR 0xE7,
      CHR 0xE8, CHR 0xE9, CHR 0xEA, CHR 0xEB, CHR 0xEC, CHR 0xED, CHR 0xEE, CHR 0xEF,
      CHR 0xF0, CHR 0xF1, CHR 0xF2, CHR 0xF3, CHR 0xF4, CHR 0xF5, CHR 0xF6, CHR 0xF8,
      CHR 0xF9, CHR 0xFA, CHR 0xFB, CHR 0xFC, CHR 0xFD, CHR 0xFE]"

definition toLowerCase :: "string \<Rightarrow> string" where
  "toLowerCase s =
     map (\<lambda>c. case map_of (zip upper_chars lower_chars) c of Some d \<Rightarrow> d | None \<Rightarrow> c) s"

text \<open>\<open>trim\<close> removes white space at both ends: tab, line feed, vertical tab, form
  feed, carriage return, space and the no-break space.\<close>

definition white_space :: "char \<Rightarrow> bool" where
  "white_space c = (c \<in> set [CHR 0x09, CHR 0x0A, CHR 0x0B, CHR 0x0C, CHR 0x0D, CHR 0x20, CHR 0xA0])"

definition trim :: "string \<Rightarrow> string" where
  "trim s = rev (dropWhile white_space (rev (dropWhile white_space s)))"

text \<open>\<open>replace(/[^a-z0-9]/g, '')\<close>.\<close>

definition strip_non_alnum :: "string \<Rightarrow> string" where
  "strip_non_alnum s = filter (\<lambda>c. c \<in> set ''abcdefghijklmnopqrstuvwxyz0123456789'') s"

text \<open>The normal form of the header and of a key of the record (trimmed), and that of
  an alias of the table (not trimmed).\<close>

definition norm_key :: "string \<Rightarrow> string" where
  "norm_key s = strip_non_alnum (trim (toLowerCase s))"

definition norm_alias :: "string \<Rightarrow> string" where
  "norm_alias s = strip_non_alnum (toLowerCase s)"

text \<open>The loop over the keys of the record: the first key whose normal form is that of
  the header gives the result.\<close>

fun key_loop :: "jsval \<Rightarrow> string \<Rightarrow> string list \<Rightarrow> jsval option" where
  "key_loop data hLower [] = None"
| "key_loop data hLower (key # keys) =
     (if norm_key key = hLower then Some (read_prop data key)
      else key_loop data hLower keys)"

text \<open>The loop over the table: the first entry one of whose aliases has the normal form
  of the header, and whose key the record defines, gives the result.\<close>

fun alias_loop :: "jsval \<Rightarrow> string \<Rightarrow> (string \<times> string list) list \<Rightarrow> jsval option" where
  "alias_loop data hLower [] = None"
| "alias_loop data hLower ((dataKey, aliases) # rest) =
     (if list_ex (\<lambda>a. norm_alias a = hLower) aliases \<and> read_prop data dataKey \<noteq> JUndefined
      then Some (read_prop data dataKey)
      else alias_loop data hLower rest)"

definition getBestMatch :: "jsval \<Rightarrow> string \<Rightarrow> error + jsval" where
  "getBestMatch data header =
     (let hLower = norm_key header in
      case get_prop data header of
        Inl e \<Rightarrow> Inl e
      | Inr v \<Rightarrow>
          if v \<noteq> JUndefined then Inr v
          else (case key_loop data hLower (own_keys data) of
                  Some x \<Rightarrow> Inr x
                | None \<Rightarrow>
                    (case alias_loop data hLower FIELD_MAPPINGS of
                       Some x \<Rightarrow> Inr x
                     | None \<Rightarrow> Inr JUndefined)))"

section \<open>Configuration, files and the outside world\<close>

text \<open>The environment variables the program reads at start-up; \<open>None\<close> is a variable
  that is not set.\<close>

record env =
  env_ZOHO_REGION :: "string option"
  env_ZOHO_CLIENT_ID :: "string option"
  env_ZOHO_CLIENT_SECRET :: "string option"
  env_ZOHO_GRANT_CODE :: "string option"
  env_ZOHO_REFRESH_TOKEN :: "string option"
  env_ZOHO_WORKBOOK_ID :: "string option"
  env_ZOHO_SHEET_NAME :: "string option"

text \<open>A variable counts as given when it is set and not empty.\<close>

definition given :: "string option \<Rightarrow> bool" where
  "given x = (case x of Some s \<Rightarrow> s \<noteq> [] | None \<Rightarrow> False)"

definition env_val :: "string option \<Rightarrow> jsval" where
  "env_val x = (case x of Some s \<Rightarrow> JStr s | None \<Rightarrow> JUndefined)"

text \<open>A variable inside a template literal.\<close>

definition tmpl :: "string option \<Rightarrow> string" where
  "tmpl x = (case x of Some s \<Rightarrow> s | None \<Rightarrow> ''undefined'')"

definition ZOHO_REGION :: "env \<Rightarrow> string" where
  "ZOHO_REGION e = (if given (env_ZOHO_REGION e) then tmpl (env_ZOHO_REGION e) else ''in'')"

definition ZOHO_SHEET_NAME :: "env \<Rightarrow> string" where
  "ZOHO_SHEET_NAME e =
     (if given (env_ZOHO_SHEET_NAME e) then tmpl (env_ZOHO_SHEET_NAME e) else ''Sheet1'')"

text \<open>The requests the program sends: to the token endpoint (its query parameters), to
  read the sheet (the address and the authorization header) and to append to it (the
  address, the form fields and the authorization header).\<close>

datatype http_call =
    TokenRequest string "(string \<times> jsval) list"
  | ContentGet string string
  | CsvAppend string "(string \<times> string) list" string

text \<open>
  The state the program changes: the two files beside it (\<open>None\<close> is a file that does
  not exist) and the requests sent so far, the latest last.
\<close>

record world =
  tokens_json :: "string option"
  bookings_csv :: "string option"
  requests :: "http_call list"

text \<open>
  What the outside decides during one request: the clock at the freshness check and
  when an expiry is computed, the time stamp of the row, whether the token file can be
  read, written and deleted, whether the log can be appended to, and the answer of each
  remote call, which is the data of the response or the exception the call throws.
\<close>

record outcomes =
  now_check :: int
  now_issue :: int
  now_iso :: string
  tokens_readable :: bool
  tokens_writable :: bool
  tokens_unlink :: "error option"
  log_append :: "error option"
  exchange_reply :: "error + jsval"
  refresh_reply :: "error + jsval"
  content_reply :: "error + jsval"
  append_reply :: "error + jsval"

definition sent :: "http_call \<Rightarrow> world \<Rightarrow> world" where
  "sent c w = w\<lparr>requests := requests w @ [c]\<rparr>"

section \<open>The token store\<close>

definition token_url :: "env \<Rightarrow> string" where
  "token_url e = ''https://accounts.zoho.'' @ ZOHO_REGION e @ ''/oauth/v2/token''"

text \<open>Step 1 of \<open>getValidAccessToken\<close>: the record of \<open>tokens.json\<close>, or null when the
  file does not exist or cannot be read or parsed.\<close>

definition load_tokens :: "runtime \<Rightarrow> outcomes \<Rightarrow> world \<Rightarrow> jsval" where
  "load_tokens rt oc w =
     (case tokens_json w of
        None \<Rightarrow> JNull
      | Some txt \<Rightarrow>
          if \<not> tokens_readable oc then JNull
          else (case json_parse rt txt of Inl err \<Rightarrow> JNull | Inr v \<Rightarrow> v))"

text \<open>The expiry computed from a response: \<open>Date.now() + (data.expires_in * 1000)\<close>.
  The conversion of \<open>expires_in\<close> to a number may throw.\<close>

definition expiry :: "runtime \<Rightarrow> outcomes \<Rightarrow> jsval \<Rightarrow> error + jsval" where
  "expiry rt oc data =
     (case to_number rt (read_prop data ''expires_in'') of
        Inl err \<Rightarrow> Inl err
      | Inr n \<Rightarrow>
          Inr (JNum (rounded rt (num_add (Fin (of_int (now_issue oc)))
                                  (rounded rt (num_mul n (Fin 1000)))))))"

definition persist :: "runtime \<Rightarrow> outcomes \<Rightarrow> jsval \<Rightarrow> world \<Rightarrow> world" where
  "persist rt oc tokens w =
     (if tokens_writable oc then w\<lparr>tokens_json := Some (json_stringify rt tokens)\<rparr> else w)"

text \<open>Step 3: the exchange of the grant code. Every exception of the block is replaced
  by the one authentication error.\<close>

definition exchange :: "runtime \<Rightarrow> env \<Rightarrow> outcomes \<Rightarrow> world \<Rightarrow> (error + jsval) \<times> world" where
  "exchange rt e oc w =
     (let w1 = sent (TokenRequest (token_url e)
                 [(''code'', env_val (env_ZOHO_GRANT_CODE e)),
                  (''client_id'', env_val (env_ZOHO_CLIENT_ID e)),
                  (''client_secret'', env_val (env_ZOHO_CLIENT_SECRET e)),
                  (''grant_type'', JStr ''authorization_code'')]) w;
          failed = Error ''Zoho Authentication failed. Please check ZOHO_GRANT_CODE.''
      in case exchange_reply oc of
           Inl err \<Rightarrow> (Inl failed, w1)
         | Inr data \<Rightarrow>
             (case get_prop data ''access_token'' of
                Inl err \<Rightarrow> (Inl failed, w1)
              | Inr access \<Rightarrow>
                  (case expiry rt oc data of
                     Inl err \<Rightarrow> (Inl failed, w1)
                   | Inr expires \<Rightarrow>
                       (let tokens = JObj [(''access_token'', access),
                                           (''refresh_token'', read_prop data ''refresh_token''),
                                           (''expires_at'', expires)]
                        in (Inr (read_prop tokens ''access_token''), persist rt oc tokens w1)))))"

text \<open>Step 4, the freshness check: \<open>Date.now() >= (tokens.expires_at || 0) - 60000\<close>.
  The conversion of the stored expiry to a number may throw. The difference is not
  rounded: the clock is a whole number of milliseconds from 0 up to \<open>2^53\<close>, and for
  such a clock the comparison with the rounded difference has the same answer.\<close>

definition expired :: "runtime \<Rightarrow> int \<Rightarrow> jsval \<Rightarrow> error + bool" where
  "expired rt now tokens =
     (case to_number rt (js_or (read_prop tokens ''expires_at'') (JNum (Fin 0))) of
        Inl err \<Rightarrow> Inl err
      | Inr n \<Rightarrow> Inr (num_ge (Fin (of_int now)) (num_sub n (Fin 60000))))"

text \<open>The body of the \<open>try\<close> block of the refresh: the record with the new access token
  and expiry, or the exception.\<close>

definition refreshed :: "runtime \<Rightarrow> outcomes \<Rightarrow> jsval \<Rightarrow> error + jsval" where
  "refreshed rt oc tokens =
     (case refresh_reply oc of
        Inl err \<Rightarrow> Inl err
      | Inr data \<Rightarrow>
          (case get_prop data ''access_token'' of
             Inl err \<Rightarrow> Inl err
           | Inr access \<Rightarrow>
               (case set_prop tokens ''access_token'' access of
                  Inl err \<Rightarrow> Inl err
                | Inr t1 \<Rightarrow>
                    (case expiry rt oc data of
                       Inl err \<Rightarrow> Inl err
                     | Inr expires \<Rightarrow> set_prop t1 ''expires_at'' expires))))"

text \<open>The refresh with its handler: when it fails and a grant code is given, the token
  file is deleted if it exists, and the refresh error is thrown.\<close>

definition refresh :: "runtime \<Rightarrow> env \<Rightarrow> outcomes \<Rightarrow> jsval \<Rightarrow> world \<Rightarrow> (error + jsval) \<times> world" where
  "refresh rt e oc tokens w =
     (let w1 = sent (TokenRequest (token_url e)
                 [(''refresh_token'', read_prop tokens ''refresh_token''),
                  (''client_id'', env_val (env_ZOHO_CLIENT_ID e)),
                  (''client_secret'', env_val (env_ZOHO_CLIENT_SECRET e)),
                  (''grant_type'', JStr ''refresh_token'')]) w
      in case refreshed rt oc tokens of
           Inr t2 \<Rightarrow> (Inr t2, persist rt oc t2 w1)
         | Inl err \<Rightarrow>
             if given (env_ZOHO_GRANT_CODE e) \<and> tokens_json w1 \<noteq> None
             then (case tokens_unlink oc of
                     Some io \<Rightarrow> (Inl io, w1)
                   | None \<Rightarrow> (Inl (Error ''Zoho token refresh failed.''), w1\<lparr>tokens_json := None\<rparr>))
             else (Inl (Error ''Zoho token refresh failed.''), w1))"

text \<open>Steps 1 and 2: the record in use is the stored one, or, when there is none and a
  standing refresh token is given, a record made of that token with expiry 0.\<close>

definition current_tokens :: "runtime \<Rightarrow> env \<Rightarrow> outcomes \<Rightarrow> world \<Rightarrow> jsval" where
  "current_tokens rt e oc w =
     (let loaded = load_tokens rt oc w
      in if \<not> truthy loaded \<and> given (env_ZOHO_REFRESH_TOKEN e)
         then JObj [(''refresh_token'', env_val (env_ZOHO_REFRESH_TOKEN e)),
                    (''expires_at'', JNum (Fin 0))]
         else loaded)"

definition getValidAccessToken :: "runtime \<Rightarrow> env \<Rightarrow> outcomes \<Rightarrow> world \<Rightarrow> (error + jsval) \<times> world" where
  "getValidAccessToken rt e oc w =
     (let tokens = current_tokens rt e oc w
      in if \<not> truthy tokens then
           (if \<not> given (env_ZOHO_GRANT_CODE e)
            then (Inl (Error ''No authentication method available. Set ZOHO_REFRESH_TOKEN or ZOHO_GRANT_CODE.''), w)
            else exchange rt e oc w)
         else case expired rt (now_check oc) tokens of
                Inl err \<Rightarrow> (Inl err, w)
              | Inr stale \<Rightarrow>
                  if stale then
                    (case refresh rt e oc tokens w of
                       (Inl err, w') \<Rightarrow> (Inl err, w')
                     | (Inr t2, w') \<Rightarrow> (Inr (read_prop t2 ''access_token''), w'))
                  else (Inr (read_prop tokens ''access_token''), w))"

section \<open>The sheet appender\<close>

definition headers :: "string list" where
  "headers =
     [''Date'', ''Quotation No'', ''Full Name'', ''Contact No'', ''Mail Id'', ''Location'', ''Full Address'',
      ''Service'', ''Online Service'', ''Budget'', ''Plot Length'', ''Plot Width'', ''Plot Area'',
      ''Setback'', ''Typical Area'', ''Floors'', ''Terrace'', ''Built Area'', ''Road Facing'',
      ''Houses'', ''Rentals'', ''Shops'', ''Parking'', ''Lift'', ''Vastu'', ''Rooms'',
      ''Interior Floors'', ''Sub Services'', ''Sub Total'', ''GST'', ''Total'',
      ''Interior Area'', ''Construction Stage'', ''Interior Subtotal'', ''Interior GST'',
      ''Interior Total Cost'', ''Ground floor requirement'', ''Floor 1 requirement'',
      ''Floor 2 requirement'', ''Floor 3 requirement'', ''Floor 4 requirement'', ''Floor 5 requirement'']"

text \<open>The row of values, \<open>data.key || ''\<close> for each key in turn; the first one falls
  back on the current time. Reading a member of null or undefined throws.\<close>

definition mappedValues :: "outcomes \<Rightarrow> jsval \<Rightarrow> error + jsval list" where
  "mappedValues oc data =
     (if nullish data then Inl (TypeError (cannot_read data ''timestamp''))
      else Inr
        [js_or (read_prop data ''timestamp'') (JStr (now_iso oc)),
         js_or (read_prop data ''quotationNo'') (JStr []),
         js_or (read_prop data ''name'') (JStr []),
         js_or (read_prop data ''phone'') (JStr []),
         js_or (read_prop data ''email'') (JStr []),
         js_or (read_prop data ''city'') (JStr []),
         js_or (read_prop data ''address'') (JStr []),
         js_or (read_prop data ''mainService'') (JStr []),
         js_or (read_prop data ''onlineService'') (JStr []),
         js_or (read_prop data ''budget'') (JStr []),
         js_or (read_prop data ''plotLength'') (JStr []),
         js_or (read_prop data ''plotWidth'') (JStr []),
         js_or (read_prop data ''archPlotArea'') (JStr []),
         js_or (read_prop data ''archSetback'') (JStr []),
         js_or (read_prop data ''typicalAreaAfterSetback'') (JStr []),
         js_or (read_prop data ''archFloors'') (JStr []),
         js_or (read_prop data ''archTerrace'') (JStr []),
         js_or (read_prop data ''archTotalBuiltArea'') (JStr []),
         js_or (read_prop data ''roadFacing'') (JStr []),
         js_or (read_prop data ''noOfHouses'') (JStr []),
         js_or (read_prop data ''rentalUnits'') (JStr []),
         js_or (read_prop data ''shopsUnits'') (JStr []),
         js_or (read_prop data ''parkingUnits'') (JStr []),
         js_or (read_prop data ''archLift'') (JStr []),
         js_or (read_prop data ''archVastu'') (JStr []),
         js_or (read_prop data ''rooms'') (JStr []),
         js_or (read_prop data ''intFloorSelect'') (JStr []),
         js_or (read_prop data ''archSubService'') (JStr []),
         js_or (read_prop data ''archSubTotal'') (JStr []),
         js_or (read_prop data ''archGst'') (JStr []),
         js_or (read_prop data ''archTotal'') (JStr []),
         js_or (read_prop data ''intTotalBuiltArea'') (JStr []),
         js_or (read_prop data ''constructionStage'') (JStr []),
         js_or (read_prop data ''intSubTotal'') (JStr []),
         js_or (read_prop data ''intGst'') (JStr []),
         js_or (read_prop data ''intTotal'') (JStr []),
         js_or (read_prop data ''floorReq0'') (JStr []),
         js_or (read_prop data ''floorReq1'') (JStr []),
         js_or (read_prop data ''floorReq2'') (JStr []),
         js_or (read_prop data ''floorReq3'') (JStr []),
         js_or (read_prop data ''floorReq4'') (JStr []),
         js_or (read_prop data ''floorReq5'') (JStr [])])"

text \<open>The quoting of a field: \<open>"${String(v).replace(/"/g, '""')}"\<close>.\<close>

definition double_quotes :: "string \<Rightarrow> string" where
  "double_quotes s = concat (map (\<lambda>c. if c = CHR 0x22 then [CHR 0x22, CHR 0x22] else [c]) s)"

definition csv_quote :: "string \<Rightarrow> string" where
  "csv_quote s = CHR 0x22 # double_quotes s @ [CHR 0x22]"

definition csv_cell :: "runtime \<Rightarrow> jsval \<Rightarrow> error + string" where
  "csv_cell rt v = (case to_string rt v of Inl err \<Rightarrow> Inl err | Inr s \<Rightarrow> Inr (csv_quote s))"

text \<open>The quoting of the values of a row, \<open>vals.map(v => ...)\<close>: the first value that
  cannot be converted throws.\<close>

fun csv_cells :: "runtime \<Rightarrow> jsval list \<Rightarrow> error + string list" where
  "csv_cells rt [] = Inr []"
| "csv_cells rt (v # vs) =
     (case csv_cell rt v of
        Inl err \<Rightarrow> Inl err
      | Inr c \<Rightarrow>
          (case csv_cells rt vs of
             Inl err \<Rightarrow> Inl err
           | Inr cs \<Rightarrow> Inr (c # cs)))"

text \<open>The test \<open>x && x.length > 0\<close>. The comparison converts the length to a number.\<close>

definition has_items :: "runtime \<Rightarrow> jsval \<Rightarrow> error + bool" where
  "has_items rt x =
     (if \<not> truthy x then Inr False
      else case to_number rt (read_prop x ''length'') of
             Inl err \<Rightarrow> Inl err
           | Inr n \<Rightarrow> Inr (num_gt n (Fin 0)))"

text \<open>What \<open>for (const row of x)\<close> visits: the elements of an array, the characters of
  a string; any other value is not iterable.\<close>

fun items :: "jsval \<Rightarrow> error + jsval list" where
  "items (JArr xs ps) = Inr xs"
| "items (JStr s) = Inr (map (\<lambda>c. JStr [c]) s)"
| "items v = Inl (TypeError ''checkRes.data.range_details is not iterable'')"

text \<open>\<open>row.row_details[0]?.content\<close>.\<close>

definition first_cell :: "jsval \<Rightarrow> jsval" where
  "first_cell cells =
     (let c = read_prop cells ''0'' in if nullish c then JUndefined else read_prop c ''content'')"

fun scan_rows :: "runtime \<Rightarrow> jsval list \<Rightarrow> error + bool" where
  "scan_rows rt [] = Inr False"
| "scan_rows rt (row # rows) =
     (case get_prop row ''row_details'' of
        Inl err \<Rightarrow> Inl err
      | Inr cells \<Rightarrow>
          (case has_items rt cells of
             Inl err \<Rightarrow> Inl err
           | Inr some \<Rightarrow>
               if some \<and> first_cell cells = JStr ''Date'' then Inr True
               else scan_rows rt rows))"

definition headerFound :: "runtime \<Rightarrow> jsval \<Rightarrow> error + bool" where
  "headerFound rt checked =
     (case get_prop checked ''range_details'' of
        Inl err \<Rightarrow> Inl err
      | Inr details \<Rightarrow>
          (case has_items rt details of
             Inl err \<Rightarrow> Inl err
           | Inr some \<Rightarrow>
               if some
               then (case items details of Inl err \<Rightarrow> Inl err | Inr rows \<Rightarrow> scan_rows rt rows)
               else Inr False))"

text \<open>The text sent to the sheet: the line of the quoted headers when they are needed,
  and the line of the quoted values, or the exception of a value that cannot be
  converted.\<close>

definition csvContent :: "runtime \<Rightarrow> bool \<Rightarrow> jsval list \<Rightarrow> error + string" where
  "csvContent rt needsHeaders vals =
     (case csv_cells rt vals of
        Inl err \<Rightarrow> Inl err
      | Inr cs \<Rightarrow>
          Inr ((if needsHeaders then join '','' (map csv_quote headers) @ [CHR 0x0A] else [])
                 @ join '','' cs))"

definition check_url :: "env \<Rightarrow> string" where
  "check_url e =
     ''https://sheet.zoho.'' @ ZOHO_REGION e @ ''/api/v2/'' @ tmpl (env_ZOHO_WORKBOOK_ID e)
       @ ''?method=worksheet.content.get&worksheet_name='' @ ZOHO_SHEET_NAME e @ ''&range=A1:A10''"

definition append_url :: "env \<Rightarrow> string" where
  "append_url e =
     ''https://sheet.zoho.'' @ ZOHO_REGION e @ ''/api/v2/'' @ tmpl (env_ZOHO_WORKBOOK_ID e)
       @ ''?method=worksheet.csvdata.append''"

text \<open>The header \<open>`Zoho-oauthtoken ${accessToken}`\<close>.\<close>

definition authorization :: "runtime \<Rightarrow> jsval \<Rightarrow> error + string" where
  "authorization rt accessToken =
     (case to_string rt accessToken of
        Inl err \<Rightarrow> Inl err
      | Inr s \<Rightarrow> Inr (''Zoho-oauthtoken '' @ s))"

text \<open>The \<open>try\<close> block of \<open>appendToZohoSheet\<close>: the data of the append response, or
  the first exception. The header is built before the sheet is read, and the text of the
  row before it is posted: an exception of either sends no request.\<close>

definition append_body :: "runtime \<Rightarrow> env \<Rightarrow> outcomes \<Rightarrow> jsval \<Rightarrow> world \<Rightarrow> (error + jsval) \<times> world" where
  "append_body rt e oc data w =
     (case getValidAccessToken rt e oc w of
        (Inl err, w1) \<Rightarrow> (Inl err, w1)
      | (Inr accessToken, w1) \<Rightarrow>
          (case mappedValues oc data of
             Inl err \<Rightarrow> (Inl err, w1)
           | Inr vals \<Rightarrow>
               (case authorization rt accessToken of
                  Inl err \<Rightarrow> (Inl err, w1)
                | Inr auth \<Rightarrow>
                    (let w2 = sent (ContentGet (check_url e) auth) w1
                     in case content_reply oc of
                          Inl err \<Rightarrow> (Inl err, w2)
                        | Inr checked \<Rightarrow>
                            (case headerFound rt checked of
                               Inl err \<Rightarrow> (Inl err, w2)
                             | Inr found \<Rightarrow>
                                 (case csvContent rt (\<not> found) vals of
                                    Inl err \<Rightarrow> (Inl err, w2)
                                  | Inr payload \<Rightarrow>
                                      (let w3 = sent (CsvAppend (append_url e)
                                                  [(''worksheet_name'', ZOHO_SHEET_NAME e),
                                                   (''data'', payload)]
                                                  auth) w2
                                       in case append_reply oc of
                                            Inl err \<Rightarrow> (Inl err, w3)
                                          | Inr result \<Rightarrow>
                                              (case get_prop result ''status'' of
                                                 Inl err \<Rightarrow> (Inl err, w3)
                                               | Inr st \<Rightarrow> (Inr result, w3)))))))))"

text \<open>The handler of the block turns every exception into a failure status.\<close>

definition appendToZohoSheet :: "runtime \<Rightarrow> env \<Rightarrow> outcomes \<Rightarrow> jsval \<Rightarrow> world \<Rightarrow> jsval \<times> world" where
  "appendToZohoSheet rt e oc data w =
     (case append_body rt e oc data w of
        (Inl err, w') \<Rightarrow>
          (JObj [(''status'', JStr ''failure''), (''error'', JStr (message err))], w')
      | (Inr result, w') \<Rightarrow> (result, w'))"

section \<open>The request handler\<close>

record request =
  req_method :: string
  req_url :: string
  req_body :: string

text \<open>A response: the status code and the value whose JSON text is the body, if any.\<close>

record response =
  res_status :: nat
  res_body :: "jsval option"

text \<open>The text appended to the log: a line of the keys when the file does not exist
  yet, and the line of the quoted values \<open>String(data[h] || '')\<close>, or the exception of
  a value that cannot be converted.\<close>

definition csvRow :: "runtime \<Rightarrow> bool \<Rightarrow> jsval \<Rightarrow> error + string" where
  "csvRow rt fileExists data =
     (let keys = own_keys data in
        case csv_cells rt (map (\<lambda>h. js_or (read_prop data h) (JStr [])) keys) of
          Inl err \<Rightarrow> Inl err
        | Inr cs \<Rightarrow>
            Inr ((if fileExists then [] else join '','' keys @ [CHR 0x0A])
                   @ join '','' cs @ [CHR 0x0A]))"

definition file_text :: "string option \<Rightarrow> string" where
  "file_text f = (case f of None \<Rightarrow> [] | Some old \<Rightarrow> old)"

text \<open>The \<open>try\<close> block of the handler of a submission. The text of the row is built
  before the log is appended to.\<close>

definition save :: "runtime \<Rightarrow> env \<Rightarrow> outcomes \<Rightarrow> string \<Rightarrow> world \<Rightarrow> (error + response) \<times> world" where
  "save rt e oc body w =
     (if body = [] then (Inl (Error ''Empty request body''), w)
      else case json_parse rt body of
             Inl err \<Rightarrow> (Inl err, w)
           | Inr data \<Rightarrow>
               (case get_prop data ''name'' of
                  Inl err \<Rightarrow> (Inl err, w)
                | Inr nm \<Rightarrow>
                    (case csvRow rt (bookings_csv w \<noteq> None) data of
                       Inl err \<Rightarrow> (Inl err, w)
                     | Inr row \<Rightarrow>
                         (case log_append oc of
                            Some io \<Rightarrow> (Inl io, w)
                          | None \<Rightarrow>
                              (let w1 = w\<lparr>bookings_csv := Some (file_text (bookings_csv w) @ row)\<rparr>
                               in case appendToZohoSheet rt e oc data w1 of
                                    (zohoRes, w2) \<Rightarrow>
                                      (case get_prop zohoRes ''status'' of
                                         Inl err \<Rightarrow> (Inl err, w2)
                                       | Inr st \<Rightarrow>
                                           (Inr \<lparr>res_status = 200,
                                                 res_body = Some (JObj [(''success'', JBool True), (''zoho'', st)])\<rparr>,
                                            w2)))))))"

text \<open>
  The server. \<open>Inl\<close> would be an exception that leaves the handler uncaught; the
  handler of the \<open>try\<close> block answers every exception of the block with status 400.
\<close>

definition server :: "runtime \<Rightarrow> env \<Rightarrow> outcomes \<Rightarrow> request \<Rightarrow> world \<Rightarrow> (error + response) \<times> world" where
  "server rt e oc req w =
     (if req_method req = ''OPTIONS'' then (Inr \<lparr>res_status = 204, res_body = None\<rparr>, w)
      else if req_method req = ''POST'' \<and> (req_url req = ''/save'' \<or> req_url req = ''/'') then
        (case save rt e oc (req_body req) w of
           (Inl err, w') \<Rightarrow>
             (Inr \<lparr>res_status = 400,
                   res_body = Some (JObj [(''success'', JBool False), (''error'', JStr (message err))])\<rparr>,
              w')
         | (Inr res, w') \<Rightarrow> (Inr res, w'))
      else (Inr \<lparr>res_status = 404, res_body = None\<rparr>, w))"

section \<open>Reference notions of the specification\<close>

text \<open>
  The reader of a CSV field as the standard (RFC 4180) has it: a field in double quotes
  ends at the first quote that is not doubled, and a doubled quote stands for one quote;
  a field without quotes is taken as it is. \<open>unquote_body\<close> reads what follows the
  opening quote. \<open>None\<close> is a field that is not well formed.
\<close>

fun unquote_body :: "string \<Rightarrow> string option" where
  "unquote_body [] = None"
| "unquote_body (c # cs) =
     (if c = CHR 0x22 then
        (case cs of
           [] \<Rightarrow> Some []
         | d # ds \<Rightarrow> if d = CHR 0x22 then map_option ((#) (CHR 0x22)) (unquote_body ds) else None)
      else map_option ((#) c) (unquote_body cs))"

definition csv_unquote :: "string \<Rightarrow> string option" where
  "csv_unquote s =
     (case s of
        [] \<Rightarrow> Some []
      | c # cs \<Rightarrow>
          if c = CHR 0x22 then unquote_body cs
          else if list_ex (\<lambda>x. x \<in> set [CHR 0x22, CHR '','', CHR 0x0A, CHR 0x0D]) s then None
          else Some s)"


text \<open>The values of a JSON text that are no objects, arrays or null: a number, a
  string, a boolean.\<close>

fun scalar :: "jsval \<Rightarrow> bool" where
  "scalar (JNum n) = True"
| "scalar (JBool b) = True"
| "scalar (JStr s) = True"
| "scalar v = False"

text \<open>
  The answer to the content query in the words of the specification: the rows returned
  are the elements of \<open>range_details\<close>, the cells of a row are the elements of its
  \<open>row_details\<close>, and a cell holds the header when its content is exactly the string
  \<open>Date\<close>. A row whose \<open>row_details\<close> is no array but an object with a length above 0
  has the first cell that the object gives under the name \<open>0\<close>. The two readings of
  "the row has the cell Date" are: its first cell holds it, or any of its cells does.
\<close>

definition returned_rows :: "jsval \<Rightarrow> jsval list" where
  "returned_rows checked =
     (case read_prop checked ''range_details'' of JArr rows ps \<Rightarrow> rows | other \<Rightarrow> [])"

definition holds_date :: "jsval \<Rightarrow> bool" where
  "holds_date cell = (\<not> nullish cell \<and> read_prop cell ''content'' = JStr ''Date'')"

definition first_cell_holds_date :: "runtime \<Rightarrow> jsval \<Rightarrow> bool" where
  "first_cell_holds_date rt row =
     (case read_prop row ''row_details'' of
        JArr cells ps \<Rightarrow> (case cells of [] \<Rightarrow> False | c # cs \<Rightarrow> holds_date c)
      | JObj kvs \<Rightarrow>
          (case to_number rt (read_prop (JObj kvs) ''length'') of
             Inl err \<Rightarrow> False
           | Inr n \<Rightarrow> num_gt n (Fin 0) \<and> holds_date (read_prop (JObj kvs) ''0''))
      | other \<Rightarrow> False)"

definition some_cell_holds_date :: "jsval \<Rightarrow> bool" where
  "some_cell_holds_date row =
     (case read_prop row ''row_details'' of
        JArr cells ps \<Rightarrow> list_ex holds_date cells
      | other \<Rightarrow> False)"

text \<open>
  The order of resolution in the words of the specification, for a record given by its
  members: the exact key, then the first key with the normal form of the header, then
  the key of the table entry that lists the header among its aliases.
\<close>

definition exact_match :: "(string \<times> jsval) list \<Rightarrow> string \<Rightarrow> jsval option" where
  "exact_match members header = map_of members header"

definition norm_match :: "(string \<times> jsval) list \<Rightarrow> string \<Rightarrow> jsval option" where
  "norm_match members header =
     map_option snd (List.find (\<lambda>kv. norm_key (fst kv) = norm_key header) members)"

definition alias_match :: "(string \<times> jsval) list \<Rightarrow> string \<Rightarrow> jsval option" where
  "alias_match members header =
     (case List.find (\<lambda>entry. list_ex (\<lambda>a. norm_alias a = norm_key header) (snd entry))
             FIELD_MAPPINGS of
        None \<Rightarrow> None
      | Some entry \<Rightarrow> map_of members (fst entry))"

definition resolve_in_order :: "(string \<times> jsval) list \<Rightarrow> string \<Rightarrow> jsval option" where
  "resolve_in_order members header =
     (case exact_match members header of
        Some v \<Rightarrow> Some v
      | None \<Rightarrow>
          (case norm_match members header of
             Some v \<Rightarrow> Some v
           | None \<Rightarrow> alias_match members header))"

section \<open>Sample inputs\<close>

text \<open>
  A runtime for the examples: its JSON reader knows the texts of a table and rejects
  every other text; its other functions are not looked at by the examples.
\<close>

definition table_runtime :: "(string \<times> jsval) list \<Rightarrow> runtime" where
  "table_runtime tbl =
     \<lparr>json_parse = (\<lambda>s. case map_of tbl s of
                            Some v \<Rightarrow> Inr v
                          | None \<Rightarrow> Inl (SyntaxError ''Unexpected token'')),
      json_stringify = (\<lambda>v. ''{}''),
      num_str = (\<lambda>n. ''0''),
      str_num = (\<lambda>s. NaN),
      native_str = (\<lambda>n. ''function () { [native code] }''),
      round_double = Fin\<rparr>"

text \<open>An environment with the client and the workbook set, and with the grant code and
  the standing refresh token as given.\<close>

definition env_tokens :: "string option \<Rightarrow> string option \<Rightarrow> env" where
  "env_tokens grant standing =
     \<lparr>env_ZOHO_REGION = None, env_ZOHO_CLIENT_ID = Some ''id'', env_ZOHO_CLIENT_SECRET = Some ''secret'',
      env_ZOHO_GRANT_CODE = grant, env_ZOHO_REFRESH_TOKEN = standing,
      env_ZOHO_WORKBOOK_ID = Some ''book'', env_ZOHO_SHEET_NAME = None\<rparr>"

text \<open>An outside where the files can be used and every remote call is refused.\<close>

definition offline :: outcomes where
  "offline =
     \<lparr>now_check = 1000000, now_issue = 1000001, now_iso = ''2026-01-01T00:00:00.000Z'',
      tokens_readable = True, tokens_writable = True, tokens_unlink = None, log_append = None,
      exchange_reply = Inl (Error ''Network Error''), refresh_reply = Inl (Error ''Network Error''),
      content_reply = Inl (Error ''Network Error''), append_reply = Inl (Error ''Network Error'')\<rparr>"

definition fresh_world :: world where
  "fresh_world = \<lparr>tokens_json = None, bookings_csv = None, requests = []\<rparr>"

text \<open>A token record whose access token expires at the given time, the text of the
  file that holds it, and a submission with its text.\<close>

definition stored_tokens :: "int \<Rightarrow> jsval" where
  "stored_tokens ex =
     JObj [(''access_token'', JStr ''old''), (''refresh_token'', JStr ''r1''),
           (''expires_at'', JNum (Fin (of_int ex)))]"

definition quoted :: "string \<Rightarrow> string" where
  "quoted s = CHR 0x22 # s @ [CHR 0x22]"

definition tokens_text :: string where
  "tokens_text =
     ''{'' @ quoted ''access_token'' @ '':'' @ quoted ''old'' @ '','' @ quoted ''refresh_token'' @ '':''
       @ quoted ''r1'' @ '','' @ quoted ''expires_at'' @ '':1060000}''"

definition asha :: jsval where
  "asha = JObj [(''name'', JStr ''Asha'')]"

definition asha_text :: string where
  "asha_text = ''{'' @ quoted ''name'' @ '':'' @ quoted ''Asha'' @ ''}''"

text \<open>A submission with a member that has no string: an object with an own member
  \<open>toString\<close>.\<close>

definition sealed :: jsval where
  "sealed = JObj [(''a'', JObj [(''toString'', JNum (Fin 1))])]"

definition sealed_text :: string where
  "sealed_text = ''{'' @ quoted ''a'' @ '':{'' @ quoted ''toString'' @ '':1}}''"

definition sample_runtime :: runtime where
  "sample_runtime =
     table_runtime [(''5'', JNum (Fin 5)), (''null'', JNull), (asha_text, asha),
                    (sealed_text, sealed), (tokens_text, stored_tokens 1060000)]"

definition stored_world :: world where
  "stored_world = \<lparr>tokens_json = Some tokens_text, bookings_csv = None, requests = []\<rparr>"

text \<open>A submission request, and a world where a record is stored and the log has a
  header line and one row.\<close>

definition post_save :: "string \<Rightarrow> request" where
  "post_save body = \<lparr>req_method = ''POST'', req_url = ''/save'', req_body = body\<rparr>"


text \<open>Answers to the content query: one row whose only cell is \<open>Date\<close>, and one
  row with \<open>Date\<close> in its second cell. An outside at time 0, where the stored token
  is still fresh, the content query gets the given answer and the append succeeds.\<close>

definition date_reply :: jsval where
  "date_reply =
     JObj [(''range_details'',
            JArr [JObj [(''row_index'', JNum (Fin 1)),
                        (''row_details'', JArr [JObj [(''content'', JStr ''Date'')]] [])]] [])]"

definition two_cell_reply :: jsval where
  "two_cell_reply =
     JObj [(''range_details'',
            JArr [JObj [(''row_index'', JNum (Fin 1)),
                        (''row_details'',
                         JArr [JObj [(''content'', JStr ''Name'')],
                               JObj [(''content'', JStr ''Date'')]] [])]] [])]"

definition online :: "jsval \<Rightarrow> outcomes" where
  "online checked =
     \<lparr>now_check = 0, now_issue = 1, now_iso = ''1970-01-01T00:00:00.000Z'',
      tokens_readable = True, tokens_writable = True, tokens_unlink = None, log_append = None,
      exchange_reply = Inl (Error ''Network Error''), refresh_reply = Inl (Error ''Network Error''),
      content_reply = Inr checked,
      append_reply = Inr (JObj [(''status'', JStr ''success'')])\<rparr>"

section \<open>The quoting of CSV fields\<close>

lemma unquote_body_double_quotes: "unquote_body (double_quotes s @ [CHR 0x22]) = Some s"
  by (induction s) (simp_all add: double_quotes_def)

text \<open>
  Claim C9. The quoting used for every field of the log and of the sheet payload (the
  field between double quotes, each double quote of the field doubled) is undone by the
  standard reader of a CSV field: for every string \<open>s\<close>, with or without double
  quotes in it, reading the quoted field gives \<open>s\<close> back; so it is for the cell of a
  string value.
\<close>

theorem csv_quote_round_trip:
  "csv_unquote (csv_quote s) = Some s
   \<and> (\<exists>field. csv_cell rt (JStr s) = Inr field \<and> csv_unquote field = Some s)"
proof -
  have "csv_quote s = CHR 0x22 # (double_quotes s @ [CHR 0x22])"
    by (simp add: csv_quote_def)
  then have "csv_unquote (csv_quote s) = unquote_body (double_quotes s @ [CHR 0x22])"
    by (simp add: csv_unquote_def)
  then have field: "csv_unquote (csv_quote s) = Some s"
    by (simp add: unquote_body_double_quotes)
  have "csv_cell rt (JStr s) = Inr (csv_quote s)"
    by (simp add: csv_cell_def)
  with field show ?thesis
    by simp
qed

theorem csv_quote_round_trip_witness:
  "csv_quote [CHR ''a'', CHR 0x22, CHR ''b''] = [CHR 0x22, CHR ''a'', CHR 0x22, CHR 0x22, CHR ''b'', CHR 0x22]
   \<and> csv_unquote [CHR 0x22, CHR ''a'', CHR 0x22, CHR 0x22, CHR ''b'', CHR 0x22] = Some [CHR ''a'', CHR 0x22, CHR ''b'']"
proof -
  have q: "csv_quote [CHR ''a'', CHR 0x22, CHR ''b''] = [CHR 0x22, CHR ''a'', CHR 0x22, CHR 0x22, CHR ''b'', CHR 0x22]"
    by (simp add: csv_quote_def double_quotes_def)
  show ?thesis
    using csv_quote_round_trip [of "[CHR ''a'', CHR 0x22, CHR ''b'']"] by (simp add: q)
qed

section \<open>The output row\<close>

lemma length_FIELD_MAPPINGS: "length FIELD_MAPPINGS = 42"
  by (simp add: FIELD_MAPPINGS_def)

lemma length_headers: "length headers = 42"
  by (simp add: headers_def)

lemma mappedValues_row:
  "\<not> nullish data \<Longrightarrow>
   mappedValues oc data =
     Inr (js_or (read_prop data ''timestamp'') (JStr (now_iso oc))
          # map (\<lambda>k. js_or (read_prop data k) (JStr [])) (tl (map fst FIELD_MAPPINGS)))"
  by (simp add: mappedValues_def FIELD_MAPPINGS_def)

lemma mappedValues_nth:
  assumes "\<not> nullish data" and "i < 42"
  shows "\<exists>row. mappedValues oc data = Inr row \<and> length row = 42
           \<and> row ! i = js_or (read_prop data (fst (FIELD_MAPPINGS ! i)))
                          (if i = 0 then JStr (now_iso oc) else JStr [])"
proof (cases i)
  case 0
  have "fst (FIELD_MAPPINGS ! 0) = ''timestamp''"
    by (simp add: FIELD_MAPPINGS_def)
  then show ?thesis
    using assms(1) 0 by (simp add: mappedValues_row length_FIELD_MAPPINGS)
next
  case (Suc j)
  with assms(2) have j: "j < 41"
    by simp
  then have "tl (map fst FIELD_MAPPINGS) ! j = fst (FIELD_MAPPINGS ! Suc j)"
    by (simp add: nth_tl length_FIELD_MAPPINGS)
  then show ?thesis
    using assms(1) Suc j by (simp add: mappedValues_row length_FIELD_MAPPINGS)
qed

lemma read_prop_sample:
  "read_prop (JObj [(''name'', JStr ''Asha'')]) ''timestamp'' = JUndefined"
  "read_prop (JObj [(''name'', JStr ''Asha'')]) ''quotationNo'' = JUndefined"
  "read_prop (JObj [(''name'', JStr ''Asha'')]) ''name'' = JStr ''Asha''"
  by code_simp+

lemma sample_keys:
  "fst (FIELD_MAPPINGS ! 1) = ''quotationNo''" "fst (FIELD_MAPPINGS ! 2) = ''name''"
  by (simp_all add: FIELD_MAPPINGS_def)

text \<open>
  Claim C1, as the code has it. The row built by \<open>appendToZohoSheet\<close> has 42 columns,
  as many as there are headers, in the order of the keys of the table: each column is
  the value of the record under the key of that column when that value is truthy, and
  otherwise the empty string, except the first column (Date), which is then the current
  time stamp.
\<close>

theorem mappedValues_columns:
  assumes "\<not> nullish data"
  shows "\<exists>row. mappedValues oc data = Inr row
           \<and> length row = 42 \<and> length headers = 42
           \<and> row ! 0 = (if truthy (read_prop data ''timestamp'') then read_prop data ''timestamp''
                        else JStr (now_iso oc))
           \<and> (\<forall>i. 0 < i \<and> i < 42 \<longrightarrow>
                 row ! i = (if truthy (read_prop data (fst (FIELD_MAPPINGS ! i)))
                            then read_prop data (fst (FIELD_MAPPINGS ! i)) else JStr []))"
proof -
  define row where "row = js_or (read_prop data ''timestamp'') (JStr (now_iso oc))
          # map (\<lambda>k. js_or (read_prop data k) (JStr [])) (tl (map fst FIELD_MAPPINGS))"
  have r: "mappedValues oc data = Inr row"
    unfolding row_def using assms by (rule mappedValues_row)
  have len: "length row = 42"
    by (simp add: row_def length_FIELD_MAPPINGS)
  have first: "row ! 0 = (if truthy (read_prop data ''timestamp'') then read_prop data ''timestamp''
                        else JStr (now_iso oc))"
    by (simp add: row_def js_or_def)
  have rest: "row ! i = (if truthy (read_prop data (fst (FIELD_MAPPINGS ! i)))
                            then read_prop data (fst (FIELD_MAPPINGS ! i)) else JStr [])"
    if "0 < i \<and> i < 42" for i
  proof -
    from that obtain j where i: "i = Suc j" and j: "j < 41"
      by (cases i) simp_all
    have "tl (map fst FIELD_MAPPINGS) ! j = fst (FIELD_MAPPINGS ! Suc j)"
      using j by (simp add: nth_tl length_FIELD_MAPPINGS)
    then show ?thesis
      using j by (simp add: row_def i js_or_def length_FIELD_MAPPINGS)
  qed
  show ?thesis
  proof (intro exI conjI allI impI)
    show "mappedValues oc data = Inr row" by (rule r)
    show "length row = 42" by (rule len)
    show "length headers = 42" by (rule length_headers)
    show "row ! 0 = (if truthy (read_prop data ''timestamp'') then read_prop data ''timestamp''
                        else JStr (now_iso oc))" by (rule first)
    show "row ! i = (if truthy (read_prop data (fst (FIELD_MAPPINGS ! i)))
                            then read_prop data (fst (FIELD_MAPPINGS ! i)) else JStr [])"
      if "0 < i \<and> i < 42" for i using that by (rule rest)
  qed
qed

theorem mappedValues_columns_witness:
  "\<exists>row. mappedValues offline (JObj [(''name'', JStr ''Asha'')]) = Inr row
         \<and> length row = 42
         \<and> row ! 0 = JStr ''2026-01-01T00:00:00.000Z''
         \<and> row ! 1 = JStr []
         \<and> row ! 2 = JStr ''Asha''"
proof -
  let ?d = "JObj [(''name'', JStr ''Asha'')]"
  have h: "\<not> nullish ?d"
    by (simp add: nullish_def)
  from mappedValues_columns [OF h, of offline] obtain row where
    every: "mappedValues offline ?d = Inr row \<and> length row = 42 \<and> length headers = 42
      \<and> row ! 0 = (if truthy (read_prop ?d ''timestamp'') then read_prop ?d ''timestamp''
                        else JStr (now_iso offline))
      \<and> (\<forall>i. 0 < i \<and> i < 42 \<longrightarrow>
           row ! i = (if truthy (read_prop ?d (fst (FIELD_MAPPINGS ! i)))
                      then read_prop ?d (fst (FIELD_MAPPINGS ! i)) else JStr []))" ..
  from every have r: "mappedValues offline ?d = Inr row" and len: "length row = 42"
    by (rule conjunct1, rule conjunct2 [THEN conjunct1])
  from every have c0: "row ! 0 = (if truthy (read_prop ?d ''timestamp'') then read_prop ?d ''timestamp''
                        else JStr (now_iso offline))"
    by (rule conjunct2 [THEN conjunct2, THEN conjunct2, THEN conjunct1])
  from every have rest: "\<forall>i. 0 < i \<and> i < 42 \<longrightarrow>
           row ! i = (if truthy (read_prop ?d (fst (FIELD_MAPPINGS ! i)))
                      then read_prop ?d (fst (FIELD_MAPPINGS ! i)) else JStr [])"
    by (rule conjunct2 [THEN conjunct2, THEN conjunct2, THEN conjunct2])
  have c0': "row ! 0 = JStr ''2026-01-01T00:00:00.000Z''"
    using c0 unfolding read_prop_sample by (simp add: offline_def)
  have c1: "row ! 1 = JStr []"
    using rest [rule_format, of 1] unfolding sample_keys read_prop_sample by simp
  have c2: "row ! 2 = JStr ''Asha''"
    using rest [rule_format, of 2] unfolding sample_keys read_prop_sample by simp
  show ?thesis
    by (rule exI [of _ row]) (simp only: r len c0' c1 c2 simp_thms)
qed

text \<open>
  Claim C1 as stated fails: for the empty record the row has 42 columns, not 41, and its
  first column is the time stamp, not the empty string.
\<close>

theorem output_row_41_counterexample:
  "\<exists>row. mappedValues offline (JObj []) = Inr row
         \<and> length row = 42 \<and> length row \<noteq> 41
         \<and> row ! 0 = JStr ''2026-01-01T00:00:00.000Z'' \<and> row ! 0 \<noteq> JStr []"
proof -
  have h: "\<not> nullish (JObj [])"
    by (simp add: nullish_def)
  have v: "read_prop (JObj []) ''timestamp'' = JUndefined"
    by code_simp
  show ?thesis
    unfolding mappedValues_row [OF h] v
    by (simp add: js_or_def offline_def length_FIELD_MAPPINGS)
qed

subsection \<open>The row and the field mapper\<close>

lemma norm_headers:
  "map norm_key headers =
     [''date'', ''quotationno'', ''fullname'', ''contactno'', ''mailid'', ''location'',
     ''fulladdress'', ''service'', ''onlineservice'', ''budget'', ''plotlength'',
     ''plotwidth'', ''plotarea'', ''setback'', ''typicalarea'', ''floors'', ''terrace'',
     ''builtarea'', ''roadfacing'', ''houses'', ''rentals'', ''shops'', ''parking'',
     ''lift'', ''vastu'', ''rooms'', ''interiorfloors'', ''subservices'', ''subtotal'',
     ''gst'', ''total'', ''interiorarea'', ''constructionstage'', ''interiorsubtotal'',
     ''interiorgst'', ''interiortotalcost'', ''groundfloorrequirement'',
     ''floor1requirement'', ''floor2requirement'', ''floor3requirement'',
     ''floor4requirement'', ''floor5requirement'']"
  by code_simp

lemma norm_table:
  "map (\<lambda>entry. (fst entry, map norm_alias (snd entry))) FIELD_MAPPINGS =
     [(''timestamp'', [''date'', ''timestamp'', ''date'']),
      (''quotationNo'', [''quotationno'', ''quotationno'']),
      (''name'', [''fullname'', ''name'', ''name'']),
      (''phone'', [''contactno'', ''phone'', ''phone'']),
      (''email'', [''mailid'', ''email'', ''email'']),
      (''city'', [''location'', ''city'', ''city'']),
      (''address'', [''fulladdress'', ''address'']),
      (''mainService'', [''service'', ''service'']),
      (''onlineService'', [''onlineservice'']),
      (''budget'', [''budget'']),
      (''plotLength'', [''plotlength'']),
      (''plotWidth'', [''plotwidth'']),
      (''archPlotArea'', [''plotarea'']),
      (''archSetback'', [''setback'']),
      (''typicalAreaAfterSetback'', [''typicalarea'']),
      (''archFloors'', [''floors'']),
      (''archTerrace'', [''terrace'']),
      (''archTotalBuiltArea'', [''builtarea'']),
      (''roadFacing'', [''roadfacing'']),
      (''noOfHouses'', [''houses'']),
      (''rentalUnits'', [''rentals'']),
      (''shopsUnits'', [''shops'']),
      (''parkingUnits'', [''parking'']),
      (''archLift'', [''lift'']),
      (''archVastu'', [''vastu'']),
      (''rooms'', [''rooms'']),
      (''intFloorSelect'', [''interiorfloors'']),
      (''archSubService'', [''subservices'']),
      (''archSubTotal'', [''subtotal'']),
      (''archGst'', [''gst'']),
      (''archTotal'', [''total'']),
      (''intTotalBuiltArea'', [''interiorarea'']),
      (''constructionStage'', [''constructionstage'']),
      (''intSubTotal'', [''interiorsubtotal'']),
      (''intGst'', [''interiorgst'']),
      (''intTotal'', [''interiortotalcost'']),
      (''floorReq0'', [''groundfloorrequirement'']),
      (''floorReq1'', [''floor1requirement'']),
      (''floorReq2'', [''floor2requirement'']),
      (''floorReq3'', [''floor3requirement'']),
      (''floorReq4'', [''floor4requirement'']),
      (''floorReq5'', [''floor5requirement''])]"
  by code_simp

lemma filter_norm:
  "map fst (filter (\<lambda>entry. list_ex (\<lambda>a. norm_alias a = h) (snd entry)) tbl) =
   map fst (filter (\<lambda>p. list_ex (\<lambda>a. a = h) (snd p))
              (map (\<lambda>entry. (fst entry, map norm_alias (snd entry))) tbl))"
  by (induction tbl) (auto simp: list_ex_iff)

text \<open>Each header of the sheet is, up to normal form, an alias of exactly one entry of the
  table: the entry at the position of the header.\<close>

lemma header_entries:
  "map (\<lambda>h. map fst (filter (\<lambda>entry. list_ex (\<lambda>a. norm_alias a = norm_key h) (snd entry))
                         FIELD_MAPPINGS)) headers
   = map (\<lambda>entry. [fst entry]) FIELD_MAPPINGS"
proof -
  have "map (\<lambda>h. map fst (filter (\<lambda>entry. list_ex (\<lambda>a. norm_alias a = norm_key h) (snd entry))
                         FIELD_MAPPINGS)) headers
      = map (\<lambda>h. map fst (filter (\<lambda>p. list_ex (\<lambda>a. a = h) (snd p))
               (map (\<lambda>entry. (fst entry, map norm_alias (snd entry))) FIELD_MAPPINGS)))
          (map norm_key headers)"
    by (simp add: filter_norm)
  also have "\<dots> = map (\<lambda>p. [fst p])
                (map (\<lambda>entry. (fst entry, map norm_alias (snd entry))) FIELD_MAPPINGS)"
    unfolding norm_headers norm_table by code_simp
  also have "\<dots> = map (\<lambda>entry. [fst entry]) FIELD_MAPPINGS"
    by simp
  finally show ?thesis .
qed

lemma alias_loop_find:
  "alias_loop data h tbl =
     map_option (read_prop data)
       (List.find (\<lambda>k. read_prop data k \<noteq> JUndefined)
          (map fst (filter (\<lambda>entry. list_ex (\<lambda>a. norm_alias a = h) (snd entry)) tbl)))"
  by (induction tbl) auto

lemma alias_loop_header:
  assumes "i < 42"
  shows "alias_loop data (norm_key (headers ! i)) FIELD_MAPPINGS =
           (if read_prop data (fst (FIELD_MAPPINGS ! i)) = JUndefined then None
            else Some (read_prop data (fst (FIELD_MAPPINGS ! i))))"
proof -
  have "map fst (filter (\<lambda>entry. list_ex (\<lambda>a. norm_alias a = norm_key (headers ! i)) (snd entry))
                         FIELD_MAPPINGS) = [fst (FIELD_MAPPINGS ! i)]"
    using arg_cong [OF header_entries, of "\<lambda>xs. xs ! i"] assms
    by (simp add: length_headers length_FIELD_MAPPINGS)
  then show ?thesis
    by (simp add: alias_loop_find)
qed

lemma js_or_defined: "b \<noteq> JUndefined \<Longrightarrow> js_or a b \<noteq> JUndefined"
  by (cases a) (auto simp: js_or_def)


lemma headers_not_keys: "list_all (\<lambda>h. h \<notin> set (map fst FIELD_MAPPINGS)) headers"
  by code_simp

lemma mappedValues_same:
  assumes "\<not> nullish a" and "\<not> nullish b"
    and "\<forall>k\<in>set (map fst FIELD_MAPPINGS). read_prop a k = read_prop b k"
  shows "mappedValues oc a = mappedValues oc b"
proof -
  have t: "''timestamp'' \<in> set (map fst FIELD_MAPPINGS)"
    by (simp add: FIELD_MAPPINGS_def)
  have "map fst FIELD_MAPPINGS \<noteq> []"
    by (simp add: FIELD_MAPPINGS_def)
  then have "k \<in> set (map fst FIELD_MAPPINGS)" if "k \<in> set (tl (map fst FIELD_MAPPINGS))" for k
    using that by (rule list.set_sel(2))
  with assms(3) have "read_prop a k = read_prop b k" if "k \<in> set (tl (map fst FIELD_MAPPINGS))" for k
    using that by blast
  then have "map (\<lambda>k. js_or (read_prop a k) (JStr [])) (tl (map fst FIELD_MAPPINGS))
      = map (\<lambda>k. js_or (read_prop b k) (JStr [])) (tl (map fst FIELD_MAPPINGS))"
    by (intro map_cong refl) simp
  moreover from assms(3) t have "read_prop a ''timestamp'' = read_prop b ''timestamp''"
    by blast
  ultimately show ?thesis
    unfolding mappedValues_row [OF assms(1)] mappedValues_row [OF assms(2)] by simp
qed

text \<open>
  Claim C2, as the code has it. The row is not built with \<open>getBestMatch\<close>: the cell
  under a header is the value of the record under the one key whose aliases in the
  table include that header (what the alias step of the mapper would find), taken only
  when it is truthy; otherwise the cell is the empty string, or the time stamp in the
  first column. The record is read under the 42 keys of the table only, and no header
  is one of them: a key of the record that is spelled as the header itself, the exact
  match of the mapper, is not looked at. No cell is undefined.
\<close>

theorem cells_by_canonical_key:
  assumes "\<not> nullish data" and "i < 42"
  shows "\<exists>row. mappedValues oc data = Inr row
           \<and> row ! i \<noteq> JUndefined
           \<and> alias_loop data (norm_key (headers ! i)) FIELD_MAPPINGS =
               (if read_prop data (fst (FIELD_MAPPINGS ! i)) = JUndefined then None
                else Some (read_prop data (fst (FIELD_MAPPINGS ! i))))
           \<and> row ! i =
               (if truthy (read_prop data (fst (FIELD_MAPPINGS ! i)))
                then read_prop data (fst (FIELD_MAPPINGS ! i))
                else if i = 0 then JStr (now_iso oc) else JStr [])
           \<and> headers ! i \<notin> set (map fst FIELD_MAPPINGS)
           \<and> (\<forall>other. \<not> nullish other
                 \<and> (\<forall>k\<in>set (map fst FIELD_MAPPINGS). read_prop other k = read_prop data k)
               \<longrightarrow> mappedValues oc other = Inr row)"
proof -
  from mappedValues_nth [OF assms, of oc] obtain row where
    r: "mappedValues oc data = Inr row"
    and c: "row ! i = js_or (read_prop data (fst (FIELD_MAPPINGS ! i)))
                          (if i = 0 then JStr (now_iso oc) else JStr [])"
    by blast
  have d: "row ! i \<noteq> JUndefined"
    unfolding c by (rule js_or_defined) simp
  have v: "row ! i =
               (if truthy (read_prop data (fst (FIELD_MAPPINGS ! i)))
                then read_prop data (fst (FIELD_MAPPINGS ! i))
                else if i = 0 then JStr (now_iso oc) else JStr [])"
    unfolding c by (simp add: js_or_def)
  have h: "headers ! i \<notin> set (map fst FIELD_MAPPINGS)"
    using headers_not_keys assms(2) by (simp add: list_all_length length_headers)
  have s: "\<forall>other. \<not> nullish other
                 \<and> (\<forall>k\<in>set (map fst FIELD_MAPPINGS). read_prop other k = read_prop data k)
               \<longrightarrow> mappedValues oc other = Inr row"
  proof (intro allI impI)
    fix other
    assume "\<not> nullish other
                 \<and> (\<forall>k\<in>set (map fst FIELD_MAPPINGS). read_prop other k = read_prop data k)"
    then have "mappedValues oc other = mappedValues oc data"
      using assms(1) by (intro mappedValues_same) simp_all
    with r show "mappedValues oc other = Inr row"
      by simp
  qed
  show ?thesis
  proof (intro exI conjI)
    show "mappedValues oc data = Inr row" by (rule r)
    show "row ! i \<noteq> JUndefined" by (rule d)
    show "alias_loop data (norm_key (headers ! i)) FIELD_MAPPINGS =
               (if read_prop data (fst (FIELD_MAPPINGS ! i)) = JUndefined then None
                else Some (read_prop data (fst (FIELD_MAPPINGS ! i))))"
      using assms(2) by (rule alias_loop_header)
    show "row ! i =
               (if truthy (read_prop data (fst (FIELD_MAPPINGS ! i)))
                then read_prop data (fst (FIELD_MAPPINGS ! i))
                else if i = 0 then JStr (now_iso oc) else JStr [])" by (rule v)
    show "headers ! i \<notin> set (map fst FIELD_MAPPINGS)" by (rule h)
    show "\<forall>other. \<not> nullish other
                 \<and> (\<forall>k\<in>set (map fst FIELD_MAPPINGS). read_prop other k = read_prop data k)
               \<longrightarrow> mappedValues oc other = Inr row" by (rule s)
  qed
qed

theorem cells_by_canonical_key_witness:
  "\<exists>row. mappedValues offline (JObj [(''name'', JStr ''Asha'')]) = Inr row
         \<and> headers ! 2 = ''Full Name''
         \<and> alias_loop (JObj [(''name'', JStr ''Asha'')]) (norm_key (headers ! 2)) FIELD_MAPPINGS
             = Some (JStr ''Asha'')
         \<and> row ! 2 = JStr ''Asha''
         \<and> mappedValues offline (JObj [(''name'', JStr ''Asha''), (''Full Name'', JStr ''Bela'')]) = Inr row"
proof -
  let ?d = "JObj [(''name'', JStr ''Asha'')]"
  let ?o = "JObj [(''name'', JStr ''Asha''), (''Full Name'', JStr ''Bela'')]"
  have h: "\<not> nullish ?d"
    by (simp add: nullish_def)
  have i: "(2::nat) < 42"
    by simp
  from cells_by_canonical_key [OF h i, of offline] obtain row where
    every: "mappedValues offline ?d = Inr row
           \<and> row ! 2 \<noteq> JUndefined
           \<and> alias_loop ?d (norm_key (headers ! 2)) FIELD_MAPPINGS =
               (if read_prop ?d (fst (FIELD_MAPPINGS ! 2)) = JUndefined then None
                else Some (read_prop ?d (fst (FIELD_MAPPINGS ! 2))))
           \<and> row ! 2 =
               (if truthy (read_prop ?d (fst (FIELD_MAPPINGS ! 2)))
                then read_prop ?d (fst (FIELD_MAPPINGS ! 2))
                else if (2::nat) = 0 then JStr (now_iso offline) else JStr [])
           \<and> headers ! 2 \<notin> set (map fst FIELD_MAPPINGS)
           \<and> (\<forall>other. \<not> nullish other
                 \<and> (\<forall>k\<in>set (map fst FIELD_MAPPINGS). read_prop other k = read_prop ?d k)
               \<longrightarrow> mappedValues offline other = Inr row)" ..
  from every have r: "mappedValues offline ?d = Inr row"
    by (rule conjunct1)
  from every have a0: "alias_loop ?d (norm_key (headers ! 2)) FIELD_MAPPINGS =
               (if read_prop ?d (fst (FIELD_MAPPINGS ! 2)) = JUndefined then None
                else Some (read_prop ?d (fst (FIELD_MAPPINGS ! 2))))"
    by (rule conjunct2 [THEN conjunct2, THEN conjunct1])
  have a: "alias_loop ?d (norm_key (headers ! 2)) FIELD_MAPPINGS = Some (JStr ''Asha'')"
    unfolding a0 sample_keys read_prop_sample by simp
  from every have c0: "row ! 2 =
               (if truthy (read_prop ?d (fst (FIELD_MAPPINGS ! 2)))
                then read_prop ?d (fst (FIELD_MAPPINGS ! 2))
                else if (2::nat) = 0 then JStr (now_iso offline) else JStr [])"
    by (rule conjunct2 [THEN conjunct2, THEN conjunct2, THEN conjunct1])
  have c: "row ! 2 = JStr ''Asha''"
    unfolding c0 sample_keys read_prop_sample by simp
  have hd: "headers ! 2 = ''Full Name''"
    by (simp add: headers_def)
  from every have s0: "\<forall>other. \<not> nullish other
                 \<and> (\<forall>k\<in>set (map fst FIELD_MAPPINGS). read_prop other k = read_prop ?d k)
               \<longrightarrow> mappedValues offline other = Inr row"
    by (rule conjunct2 [THEN conjunct2, THEN conjunct2, THEN conjunct2, THEN conjunct2])
  have same: "list_all (\<lambda>k. read_prop ?o k = read_prop ?d k) (map fst FIELD_MAPPINGS)"
    by code_simp
  have "\<not> nullish ?o \<and> (\<forall>k\<in>set (map fst FIELD_MAPPINGS). read_prop ?o k = read_prop ?d k)"
    using same by (simp add: nullish_def list_all_iff)
  with s0 have s: "mappedValues offline ?o = Inr row"
    by blast
  show ?thesis
    by (intro exI [of _ row] conjI) (rule r hd a c s)+
qed

text \<open>
  Claim C2 as stated fails: a record whose only key is the header \<open>Full Name\<close> itself
  has an exact match for that header, which \<open>getBestMatch\<close> resolves, yet the cell of
  the row under that header is the empty string.
\<close>

theorem header_match_counterexample:
  "headers ! 2 = ''Full Name''
   \<and> getBestMatch (JObj [(''Full Name'', JStr ''Asha'')]) ''Full Name'' = Inr (JStr ''Asha'')
   \<and> (\<exists>row. mappedValues offline (JObj [(''Full Name'', JStr ''Asha'')]) = Inr row
            \<and> row ! 2 = JStr [])"
proof -
  have h: "\<not> nullish (JObj [(''Full Name'', JStr ''Asha'')])"
    by (simp add: nullish_def)
  have g: "getBestMatch (JObj [(''Full Name'', JStr ''Asha'')]) ''Full Name'' = Inr (JStr ''Asha'')"
    by code_simp
  have v: "read_prop (JObj [(''Full Name'', JStr ''Asha'')]) ''name'' = JUndefined"
    by code_simp
  have k: "tl (map fst FIELD_MAPPINGS) ! 1 = ''name''"
    by (simp add: FIELD_MAPPINGS_def)
  have c: "(js_or (read_prop (JObj [(''Full Name'', JStr ''Asha'')]) ''timestamp'') (JStr (now_iso offline))
          # map (\<lambda>k. js_or (read_prop (JObj [(''Full Name'', JStr ''Asha'')]) k) (JStr []))
              (tl (map fst FIELD_MAPPINGS))) ! 2 = JStr []"
    using k by (simp add: length_FIELD_MAPPINGS v js_or_def)
  have hd: "headers ! 2 = ''Full Name''"
    by (simp add: headers_def)
  show ?thesis
    unfolding mappedValues_row [OF h] using g c hd by simp
qed

section \<open>The token store: freshness and failures\<close>

lemma expired_numeric:
  assumes "read_prop tokens ''expires_at'' = JNum (Fin ex)"
  shows "expired rt now tokens = Inr (ex - 60000 \<le> of_int now)"
proof -
  have "to_number rt (js_or (JNum (Fin ex)) (JNum (Fin 0))) = Inr (Fin ex)"
    by (simp add: js_or_def)
  then show ?thesis
    unfolding expired_def assms by (simp add: num_ge_def num_sub_def not_less)
qed

lemma refresh_requests:
  "requests (snd (refresh rt e oc tokens w)) =
     requests w @ [TokenRequest (token_url e)
                    [(''refresh_token'', read_prop tokens ''refresh_token''),
                     (''client_id'', env_val (env_ZOHO_CLIENT_ID e)),
                     (''client_secret'', env_val (env_ZOHO_CLIENT_SECRET e)),
                     (''grant_type'', JStr ''refresh_token'')]]"
  by (simp add: refresh_def sent_def persist_def Let_def split: sum.splits option.splits)

lemma getValidAccessToken_loaded:
  assumes "current_tokens rt e oc w = tokens" and "truthy tokens"
    and "expired rt (now_check oc) tokens = Inr stale"
  shows "getValidAccessToken rt e oc w =
           (if stale then
              (case refresh rt e oc tokens w of
                 (Inl err, w') \<Rightarrow> (Inl err, w')
               | (Inr t2, w') \<Rightarrow> (Inr (read_prop t2 ''access_token''), w'))
            else (Inr (read_prop tokens ''access_token''), w))"
  using assms by (simp add: getValidAccessToken_def Let_def)

text \<open>
  Claim C3. For a token record in use whose expiry is a number \<open>ex\<close>, the token counts
  as expired exactly when the clock has reached \<open>ex - 60000\<close>, that is when \<open>ex\<close> is
  at most 60000 past the clock: a token less than 60 seconds from its expiry is
  expired, and so is one exactly at the boundary. \<open>getValidAccessToken\<close> sends the
  refresh request in exactly that case, and no request otherwise.
\<close>

theorem freshness_check:
  assumes "current_tokens rt e oc w = tokens" and "truthy tokens"
    and "read_prop tokens ''expires_at'' = JNum (Fin ex)"
  shows "expired rt (now_check oc) tokens = Inr (of_int (now_check oc) \<ge> ex - 60000)
       \<and> expired rt (now_check oc) tokens = Inr (ex \<le> of_int (now_check oc) + 60000)
       \<and> requests (snd (getValidAccessToken rt e oc w)) =
           requests w @
             (if ex \<le> of_int (now_check oc) + 60000
              then [TokenRequest (token_url e)
                      [(''refresh_token'', read_prop tokens ''refresh_token''),
                       (''client_id'', env_val (env_ZOHO_CLIENT_ID e)),
                       (''client_secret'', env_val (env_ZOHO_CLIENT_SECRET e)),
                       (''grant_type'', JStr ''refresh_token'')]]
              else [])"
proof -
  have a: "expired rt (now_check oc) tokens = Inr (of_int (now_check oc) \<ge> ex - 60000)"
    using assms(3) by (rule expired_numeric)
  have "of_int (now_check oc) \<ge> ex - 60000 \<longleftrightarrow> ex \<le> of_int (now_check oc) + 60000"
    by linarith
  with a have b: "expired rt (now_check oc) tokens = Inr (ex \<le> of_int (now_check oc) + 60000)"
    by simp
  have c: "requests (snd (getValidAccessToken rt e oc w)) =
           requests w @
             (if ex \<le> of_int (now_check oc) + 60000
              then [TokenRequest (token_url e)
                      [(''refresh_token'', read_prop tokens ''refresh_token''),
                       (''client_id'', env_val (env_ZOHO_CLIENT_ID e)),
                       (''client_secret'', env_val (env_ZOHO_CLIENT_SECRET e)),
                       (''grant_type'', JStr ''refresh_token'')]]
              else [])"
  proof (cases "ex \<le> of_int (now_check oc) + 60000")
    case True
    have "requests (snd (getValidAccessToken rt e oc w)) = requests (snd (refresh rt e oc tokens w))"
      unfolding getValidAccessToken_loaded [OF assms(1,2) b] using True
      by (simp split: prod.splits sum.splits)
    then show ?thesis
      using True by (simp add: refresh_requests)
  next
    case False
    then show ?thesis
      unfolding getValidAccessToken_loaded [OF assms(1,2) b] by simp
  qed
  from a b c show ?thesis
    by (intro conjI)
qed

lemma current_stored:
  "current_tokens sample_runtime (env_tokens grant standing) offline stored_world = stored_tokens 1060000"
proof -
  have "load_tokens sample_runtime offline stored_world = stored_tokens 1060000"
    by code_simp
  then show ?thesis
    by (simp add: current_tokens_def stored_tokens_def)
qed

theorem freshness_check_witness:
  "expired sample_runtime (now_check offline) (stored_tokens 1060000) = Inr True
   \<and> read_prop (stored_tokens 1060000) ''expires_at'' = JNum (Fin 1060000)
   \<and> now_check offline + 60000 = 1060000
   \<and> requests (snd (getValidAccessToken sample_runtime (env_tokens None None) offline stored_world)) =
       [TokenRequest ''https://accounts.zoho.in/oauth/v2/token''
          [(''refresh_token'', JStr ''r1''), (''client_id'', JStr ''id''),
           (''client_secret'', JStr ''secret''), (''grant_type'', JStr ''refresh_token'')]]"
proof -
  have t: "truthy (stored_tokens 1060000)"
    by (simp add: stored_tokens_def)
  have x: "read_prop (stored_tokens 1060000) ''expires_at'' = JNum (Fin 1060000)"
    by (simp add: stored_tokens_def read_prop_def)
  have r: "read_prop (stored_tokens 1060000) ''refresh_token'' = JStr ''r1''"
    by (simp add: stored_tokens_def read_prop_def)
  have n: "now_check offline = 1000000"
    by (simp add: offline_def)
  have u: "token_url (env_tokens None None) = ''https://accounts.zoho.in/oauth/v2/token''"
    by (simp add: token_url_def ZOHO_REGION_def env_tokens_def given_def)
  have v: "env_val (env_ZOHO_CLIENT_ID (env_tokens None None)) = JStr ''id''"
    "env_val (env_ZOHO_CLIENT_SECRET (env_tokens None None)) = JStr ''secret''"
    by (simp_all add: env_tokens_def env_val_def)
  have w: "requests stored_world = []"
    by (simp add: stored_world_def)
  show ?thesis
    using freshness_check [OF current_stored t x, of None None] x
    unfolding r n u v w by simp
qed


lemma refresh_failure:
  assumes "refresh_reply oc = Inl err"
  shows "fst (refresh rt e oc tokens w) =
           (case (if given (env_ZOHO_GRANT_CODE e) \<and> tokens_json w \<noteq> None then tokens_unlink oc else None) of
              Some io \<Rightarrow> Inl io
            | None \<Rightarrow> Inl (Error ''Zoho token refresh failed.''))"
    and "tokens_json (snd (refresh rt e oc tokens w)) =
           (if given (env_ZOHO_GRANT_CODE e) \<and> tokens_unlink oc = None then None else tokens_json w)"
    and "bookings_csv (snd (refresh rt e oc tokens w)) = bookings_csv w"
  using assms
  by (auto simp: refresh_def refreshed_def sent_def Let_def split: option.splits)

lemma getValidAccessToken_refresh_failure:
  assumes "truthy (current_tokens rt e oc w)"
    and "expired rt (now_check oc) (current_tokens rt e oc w) = Inr True"
  shows "getValidAccessToken rt e oc w =
           (case refresh rt e oc (current_tokens rt e oc w) w of
              (Inl err, w') \<Rightarrow> (Inl err, w')
            | (Inr t2, w') \<Rightarrow> (Inr (read_prop t2 ''access_token''), w'))"
  using assms by (simp add: getValidAccessToken_def Let_def)

lemma fst_snd_relay:
  "fst (case p of (Inl err, w') \<Rightarrow> (Inl err, w') | (Inr t2, w') \<Rightarrow> (Inr (f t2), w'))
     = (case fst p of Inl err \<Rightarrow> Inl err | Inr t2 \<Rightarrow> Inr (f t2))"
  "snd (case p of (Inl err, w') \<Rightarrow> (Inl err, w') | (Inr t2, w') \<Rightarrow> (Inr (f t2), w')) = snd p"
  by (auto split: prod.splits sum.splits)

lemma no_record_exchange:
  assumes "tokens_json w = None" and "\<not> given (env_ZOHO_REFRESH_TOKEN e)"
    and "given (env_ZOHO_GRANT_CODE e)"
  shows "getValidAccessToken rt e oc w = exchange rt e oc w"
  using assms by (simp add: getValidAccessToken_def current_tokens_def load_tokens_def Let_def)

text \<open>
  The failures of the token store. With no stored record, no standing refresh token and
  no grant code, \<open>getValidAccessToken\<close> fails with the error that no authentication
  method is available. When the refresh call fails and a grant code is given, the stored
  record is deleted (the deletion succeeding) before the refresh error is thrown; the
  next request then falls back to the exchange of the grant code when no standing
  refresh token is given. When no grant code is given, the refresh error is thrown and
  the stored record is left as it is.
\<close>

lemma token_failures:
  "(\<not> truthy (load_tokens rt oc w) \<and> \<not> given (env_ZOHO_REFRESH_TOKEN e)
      \<and> \<not> given (env_ZOHO_GRANT_CODE e)
    \<longrightarrow> getValidAccessToken rt e oc w =
          (Inl (Error ''No authentication method available. Set ZOHO_REFRESH_TOKEN or ZOHO_GRANT_CODE.''), w))
   \<and> (truthy (current_tokens rt e oc w)
        \<and> expired rt (now_check oc) (current_tokens rt e oc w) = Inr True
        \<and> refresh_reply oc = Inl err \<and> given (env_ZOHO_GRANT_CODE e) \<and> tokens_unlink oc = None
      \<longrightarrow> fst (getValidAccessToken rt e oc w) = Inl (Error ''Zoho token refresh failed.'')
          \<and> tokens_json (snd (getValidAccessToken rt e oc w)) = None
          \<and> (\<not> given (env_ZOHO_REFRESH_TOKEN e) \<longrightarrow>
               getValidAccessToken rt e oc' (snd (getValidAccessToken rt e oc w))
                 = exchange rt e oc' (snd (getValidAccessToken rt e oc w))))
   \<and> (truthy (current_tokens rt e oc w)
        \<and> expired rt (now_check oc) (current_tokens rt e oc w) = Inr True
        \<and> refresh_reply oc = Inl err \<and> \<not> given (env_ZOHO_GRANT_CODE e)
      \<longrightarrow> fst (getValidAccessToken rt e oc w) = Inl (Error ''Zoho token refresh failed.'')
          \<and> tokens_json (snd (getValidAccessToken rt e oc w)) = tokens_json w)"
proof (intro conjI impI)
  assume "\<not> truthy (load_tokens rt oc w) \<and> \<not> given (env_ZOHO_REFRESH_TOKEN e)
      \<and> \<not> given (env_ZOHO_GRANT_CODE e)"
  then show "getValidAccessToken rt e oc w =
          (Inl (Error ''No authentication method available. Set ZOHO_REFRESH_TOKEN or ZOHO_GRANT_CODE.''), w)"
    by (simp add: getValidAccessToken_def current_tokens_def Let_def)
next
  assume a: "truthy (current_tokens rt e oc w)
        \<and> expired rt (now_check oc) (current_tokens rt e oc w) = Inr True
        \<and> refresh_reply oc = Inl err \<and> given (env_ZOHO_GRANT_CODE e) \<and> tokens_unlink oc = None"
  then have g: "getValidAccessToken rt e oc w =
           (case refresh rt e oc (current_tokens rt e oc w) w of
              (Inl err, w') \<Rightarrow> (Inl err, w')
            | (Inr t2, w') \<Rightarrow> (Inr (read_prop t2 ''access_token''), w'))"
    by (simp add: getValidAccessToken_refresh_failure)
  from a have r: "refresh_reply oc = Inl err"
    by simp
  show f: "fst (getValidAccessToken rt e oc w) = Inl (Error ''Zoho token refresh failed.'')"
    unfolding g fst_snd_relay refresh_failure(1) [OF r] using a by simp
  show d: "tokens_json (snd (getValidAccessToken rt e oc w)) = None"
    unfolding g fst_snd_relay refresh_failure(2) [OF r] using a by simp
  show "getValidAccessToken rt e oc' (snd (getValidAccessToken rt e oc w))
                 = exchange rt e oc' (snd (getValidAccessToken rt e oc w))"
    if "\<not> given (env_ZOHO_REFRESH_TOKEN e)"
    using d that a by (simp add: no_record_exchange)
next
  assume a: "truthy (current_tokens rt e oc w)
        \<and> expired rt (now_check oc) (current_tokens rt e oc w) = Inr True
        \<and> refresh_reply oc = Inl err \<and> \<not> given (env_ZOHO_GRANT_CODE e)"
  then have g: "getValidAccessToken rt e oc w =
           (case refresh rt e oc (current_tokens rt e oc w) w of
              (Inl err, w') \<Rightarrow> (Inl err, w')
            | (Inr t2, w') \<Rightarrow> (Inr (read_prop t2 ''access_token''), w'))"
    by (simp add: getValidAccessToken_refresh_failure)
  from a have r: "refresh_reply oc = Inl err"
    by simp
  show "fst (getValidAccessToken rt e oc w) = Inl (Error ''Zoho token refresh failed.'')"
    unfolding g fst_snd_relay refresh_failure(1) [OF r] using a by simp
  show "tokens_json (snd (getValidAccessToken rt e oc w)) = tokens_json w"
    unfolding g fst_snd_relay refresh_failure(2) [OF r] using a by simp
qed


lemma expired_stored: "expired rt 1000000 (stored_tokens 1060000) = Inr True"
proof -
  have "read_prop (stored_tokens 1060000) ''expires_at'' = JNum (Fin 1060000)"
    by (simp add: stored_tokens_def read_prop_def)
  then show ?thesis
    by (simp add: expired_numeric)
qed

lemma token_failures_sample:
  "getValidAccessToken sample_runtime (env_tokens None None) offline fresh_world =
     (Inl (Error ''No authentication method available. Set ZOHO_REFRESH_TOKEN or ZOHO_GRANT_CODE.''),
      fresh_world)
   \<and> fst (getValidAccessToken sample_runtime (env_tokens (Some ''code'') None) offline stored_world)
       = Inl (Error ''Zoho token refresh failed.'')
   \<and> tokens_json (snd (getValidAccessToken sample_runtime (env_tokens (Some ''code'') None) offline stored_world))
       = None
   \<and> getValidAccessToken sample_runtime (env_tokens (Some ''code'') None) offline
        (snd (getValidAccessToken sample_runtime (env_tokens (Some ''code'') None) offline stored_world))
       = exchange sample_runtime (env_tokens (Some ''code'') None) offline
        (snd (getValidAccessToken sample_runtime (env_tokens (Some ''code'') None) offline stored_world))
   \<and> fst (getValidAccessToken sample_runtime (env_tokens None None) offline stored_world)
       = Inl (Error ''Zoho token refresh failed.'')
   \<and> tokens_json (snd (getValidAccessToken sample_runtime (env_tokens None None) offline stored_world))
       = tokens_json stored_world"
proof -
  have l: "\<not> truthy (load_tokens sample_runtime offline fresh_world)"
    by (simp add: load_tokens_def fresh_world_def)
  have g: "\<not> given (env_ZOHO_REFRESH_TOKEN (env_tokens x None))"
    "\<not> given (env_ZOHO_GRANT_CODE (env_tokens None y))"
    "given (env_ZOHO_GRANT_CODE (env_tokens (Some ''code'') y))" for x y
    by (simp_all add: env_tokens_def given_def)
  have t1: "truthy (current_tokens sample_runtime (env_tokens x y) offline stored_world)" for x y
    unfolding current_stored by (simp add: stored_tokens_def)
  have t2: "expired sample_runtime (now_check offline)
              (current_tokens sample_runtime (env_tokens x y) offline stored_world) = Inr True" for x y
    unfolding current_stored by (simp add: offline_def expired_stored)
  note t = t1 t2
  have o: "refresh_reply offline = Inl (Error ''Network Error'')" "tokens_unlink offline = None"
    by (simp_all add: offline_def)
  note a = token_failures [of sample_runtime offline fresh_world "env_tokens None None"
      "Error ''Network Error''" offline, THEN conjunct1, rule_format]
  note b = token_failures [of sample_runtime offline stored_world "env_tokens (Some ''code'') None"
      "Error ''Network Error''" offline, THEN conjunct2, THEN conjunct1, rule_format]
  note c = token_failures [of sample_runtime offline stored_world "env_tokens None None"
      "Error ''Network Error''" offline, THEN conjunct2, THEN conjunct2, rule_format]
  have a': "getValidAccessToken sample_runtime (env_tokens None None) offline fresh_world =
     (Inl (Error ''No authentication method available. Set ZOHO_REFRESH_TOKEN or ZOHO_GRANT_CODE.''),
      fresh_world)"
    by (rule a) (simp add: l g)
  have h: "truthy (current_tokens sample_runtime (env_tokens (Some ''code'') None) offline stored_world)
      \<and> expired sample_runtime (now_check offline)
          (current_tokens sample_runtime (env_tokens (Some ''code'') None) offline stored_world) = Inr True
      \<and> refresh_reply offline = Inl (Error ''Network Error'')
      \<and> given (env_ZOHO_GRANT_CODE (env_tokens (Some ''code'') None)) \<and> tokens_unlink offline = None"
    by (simp add: t g o)
  have h': "truthy (current_tokens sample_runtime (env_tokens None None) offline stored_world)
      \<and> expired sample_runtime (now_check offline)
          (current_tokens sample_runtime (env_tokens None None) offline stored_world) = Inr True
      \<and> refresh_reply offline = Inl (Error ''Network Error'')
      \<and> \<not> given (env_ZOHO_GRANT_CODE (env_tokens None None))"
    by (simp add: t g o)
  from b [OF h] c [OF h'] a' show ?thesis
    by (simp add: g)
qed

text \<open>
  Claim C5. The handler of a failed refresh deletes the stored record when a grant code
  is given, so that the next request falls back to the exchange of the grant code, and
  says so (\<open>Will try grant code on next run.\<close>). Where a standing refresh token is
  given as well, the code does not get there: step 2 of the next request finds no
  stored record and takes the standing token, so after the failed refresh and the
  deletion the next request sends a second refresh request, made with the standing
  token, and none with the grant code.
\<close>

theorem grant_code_not_tried:
  "fst (getValidAccessToken sample_runtime (env_tokens (Some ''code'') (Some ''standing'')) offline stored_world)
       = Inl (Error ''Zoho token refresh failed.'')
   \<and> tokens_json (snd (getValidAccessToken sample_runtime (env_tokens (Some ''code'') (Some ''standing''))
         offline stored_world)) = None
   \<and> requests (snd (getValidAccessToken sample_runtime (env_tokens (Some ''code'') (Some ''standing'')) offline
        (snd (getValidAccessToken sample_runtime (env_tokens (Some ''code'') (Some ''standing''))
           offline stored_world))))
      = [TokenRequest ''https://accounts.zoho.in/oauth/v2/token''
          [(''refresh_token'', JStr ''r1''), (''client_id'', JStr ''id''),
           (''client_secret'', JStr ''secret''), (''grant_type'', JStr ''refresh_token'')],
         TokenRequest ''https://accounts.zoho.in/oauth/v2/token''
          [(''refresh_token'', JStr ''standing''), (''client_id'', JStr ''id''),
           (''client_secret'', JStr ''secret''), (''grant_type'', JStr ''refresh_token'')]]"
  by code_simp

section \<open>The request handler: answers and the local log\<close>








lemma append_body_result:
  assumes "append_body rt e oc data w = (Inr result, w')"
  shows "\<not> nullish result"
proof -
  obtain r w1 where g: "getValidAccessToken rt e oc w = (r, w1)"
    by (cases "getValidAccessToken rt e oc w")
  show ?thesis
    using assms
    by (auto simp: append_body_def g Let_def get_prop_def split: sum.splits if_splits)
qed

lemma appendToZohoSheet_result: "\<not> nullish (fst (appendToZohoSheet rt e oc data w))"
proof (cases "append_body rt e oc data w")
  case (Pair r w')
  show ?thesis
  proof (cases r)
    case (Inl err)
    with Pair show ?thesis
      by (simp add: appendToZohoSheet_def nullish_def)
  next
    case (Inr result)
    with Pair append_body_result [of rt e oc data w result w'] show ?thesis
      by (simp add: appendToZohoSheet_def)
  qed
qed






lemma server_post:
  assumes "req_method req = ''POST''" and "req_url req = ''/save'' \<or> req_url req = ''/''"
  shows "server rt e oc req w =
          (case save rt e oc (req_body req) w of
             (Inl err, w') \<Rightarrow>
               (Inr \<lparr>res_status = 400,
                     res_body = Some (JObj [(''success'', JBool False), (''error'', JStr (message err))])\<rparr>,
                w')
           | (Inr res, w') \<Rightarrow> (Inr res, w'))"
  using assms by (auto simp: server_def)

lemma server_answers: "\<exists>res. fst (server rt e oc req w) = Inr res"
  by (cases "save rt e oc (req_body req) w") (auto simp: server_def split: sum.splits)

lemma save_accepted:
  assumes "body \<noteq> []" and "json_parse rt body = Inr data" and "\<not> nullish data"
    and "csvRow rt (bookings_csv w \<noteq> None) data = Inr row" and "log_append oc = None"
  shows "save rt e oc body w =
     (Inr \<lparr>res_status = 200,
           res_body = Some (JObj [(''success'', JBool True),
             (''zoho'', read_prop (fst (appendToZohoSheet rt e oc data
                 (w\<lparr>bookings_csv := Some (file_text (bookings_csv w) @ row)\<rparr>)))
               ''status'')])\<rparr>,
      snd (appendToZohoSheet rt e oc data
             (w\<lparr>bookings_csv := Some (file_text (bookings_csv w) @ row)\<rparr>)))"
proof -
  let ?w1 = "w\<lparr>bookings_csv := Some (file_text (bookings_csv w) @ row)\<rparr>"
  obtain z w2 where a: "appendToZohoSheet rt e oc data ?w1 = (z, w2)"
    by (cases "appendToZohoSheet rt e oc data ?w1")
  have "\<not> nullish z"
    using appendToZohoSheet_result [of rt e oc data ?w1] a by simp
  then show ?thesis
    using assms a by (simp add: save_def get_prop_def Let_def)
qed

lemma save_log_failure:
  assumes "body \<noteq> []" and "json_parse rt body = Inr data" and "\<not> nullish data"
    and "csvRow rt (bookings_csv w \<noteq> None) data = Inr row" and "log_append oc = Some io"
  shows "save rt e oc body w = (Inl io, w)"
  using assms by (simp add: save_def get_prop_def)

lemma save_no_text:
  assumes "body \<noteq> []" and "json_parse rt body = Inr data" and "\<not> nullish data"
    and "csvRow rt (bookings_csv w \<noteq> None) data = Inl err"
  shows "save rt e oc body w = (Inl err, w)"
  using assms by (simp add: save_def get_prop_def)

lemma save_null:
  assumes "body \<noteq> []" and "json_parse rt body = Inr JNull"
  shows "save rt e oc body w = (Inl (TypeError (cannot_read JNull ''name'')), w)"
  using assms by (simp add: save_def get_prop_def nullish_def)

subsection \<open>The lines of the log\<close>










subsection \<open>The values that have a string\<close>

lemma natives_native: "map_of (natives home names) k = Some x \<Longrightarrow> \<exists>n. x = JNative n"
  by (induction names) (auto simp: natives_def split: if_splits)

lemma inherited_flat: "inherited v k = JUndefined \<or> (\<exists>n. inherited v k = JNative n)"
proof (cases "k = ''__proto__''")
  case True
  then show ?thesis
    by (simp add: inherited_def)
next
  case False
  have "\<exists>n. x = JNative n" if "map_of (prototype_chain v) k = Some x" for x
    using that
    by (cases v)
       (auto simp: map_of_append object_prototype_def array_prototype_def string_prototype_def
          number_prototype_def boolean_prototype_def function_prototype_def
          split: option.splits dest: natives_native)
  with False show ?thesis
    by (cases "map_of (prototype_chain v) k") (auto simp: inherited_def)
qed

lemma scalar_read:
  assumes "scalar data"
  shows "(\<exists>n. read_prop data k = JNum n) \<or> (\<exists>s. read_prop data k = JStr s)
       \<or> (\<exists>n. read_prop data k = JNative n) \<or> read_prop data k = JUndefined"
proof -
  have own: "(\<exists>n. x = JNum n) \<or> (\<exists>s. x = JStr s)" if "own_prop data k = Some x" for x
    using that assms by (cases data) (auto split: if_splits option.splits)
  show ?thesis
    using own inherited_flat [of data k]
    by (cases "own_prop data k") (auto simp: read_prop_def)
qed

lemma scalar_member_flat:
  assumes "scalar data"
  shows "\<exists>t. to_string rt (js_or (read_prop data k) (JStr [])) = Inr t"
proof -
  from scalar_read [OF assms, of k]
  have "(\<exists>n. js_or (read_prop data k) (JStr []) = JNum n)
      \<or> (\<exists>s. js_or (read_prop data k) (JStr []) = JStr s)
      \<or> (\<exists>n. js_or (read_prop data k) (JStr []) = JNative n)"
    by (auto simp: js_or_def)
  then show ?thesis
    by auto
qed

lemma csv_cells_all:
  "\<forall>v\<in>set vs. \<exists>t. to_string rt v = Inr t \<Longrightarrow> \<exists>cs. csv_cells rt vs = Inr cs"
  by (induction vs) (auto simp: csv_cell_def)

lemma csvRow_scalar:
  assumes "scalar data"
  shows "\<exists>row. csvRow rt fileExists data = Inr row"
proof -
  have "\<forall>v\<in>set (map (\<lambda>h. js_or (read_prop data h) (JStr [])) (own_keys data)).
          \<exists>t. to_string rt v = Inr t"
    using scalar_member_flat [OF assms] by auto
  from csv_cells_all [OF this] show ?thesis
    by (auto simp: csvRow_def Let_def)
qed

subsection \<open>The answers of the handler\<close>

lemma scalar_defined: "scalar data \<Longrightarrow> \<not> nullish data"
  by (cases data) (simp_all add: nullish_def)

text \<open>
  Claim C10, as the code has it. The handler enforces no shape on the parsed body. A
  body that is not empty and parses to a number, a string or a boolean is processed,
  once the log has been appended to, and answered with status 200 and
  \<open>success: true\<close>; so is every other value but null (an array, an object) whose
  members all have a string. A body that parses to null is answered with status 400 and
  the text of the type error of the read \<open>data.name\<close>; a body with a member that has
  no string (an object with an own member \<open>toString\<close>) is answered with status 400
  and the text of the type error of the conversion, and nothing is written.
\<close>

theorem non_object_bodies_saved:
  assumes "req_method req = ''POST''" and "req_url req = ''/save'' \<or> req_url req = ''/''"
    and "req_body req \<noteq> []" and "json_parse rt (req_body req) = Inr data"
  shows "(scalar data \<and> log_append oc = None \<longrightarrow>
           (\<exists>st. fst (server rt e oc req w) =
              Inr \<lparr>res_status = 200,
                   res_body = Some (JObj [(''success'', JBool True), (''zoho'', st)])\<rparr>))
       \<and> (\<not> nullish data \<and> csvRow rt (bookings_csv w \<noteq> None) data = Inr row
            \<and> log_append oc = None \<longrightarrow>
           (\<exists>st. fst (server rt e oc req w) =
              Inr \<lparr>res_status = 200,
                   res_body = Some (JObj [(''success'', JBool True), (''zoho'', st)])\<rparr>))
       \<and> (data = JNull \<longrightarrow>
           server rt e oc req w =
             (Inr \<lparr>res_status = 400,
                   res_body = Some (JObj [(''success'', JBool False),
                                          (''error'', JStr (cannot_read JNull ''name''))])\<rparr>,
              w))
       \<and> (\<not> nullish data \<and> csvRow rt (bookings_csv w \<noteq> None) data = Inl err \<longrightarrow>
           server rt e oc req w =
             (Inr \<lparr>res_status = 400,
                   res_body = Some (JObj [(''success'', JBool False), (''error'', JStr (message err))])\<rparr>,
              w))"
proof -
  have ok: "\<exists>st. fst (server rt e oc req w) =
              Inr \<lparr>res_status = 200,
                   res_body = Some (JObj [(''success'', JBool True), (''zoho'', st)])\<rparr>"
    if a: "\<not> nullish data" and r: "csvRow rt (bookings_csv w \<noteq> None) data = Inr line"
      and l: "log_append oc = None" for line
    unfolding server_post [OF assms(1,2)] save_accepted [OF assms(3,4) a r l]
    by simp
  have one: "\<exists>st. fst (server rt e oc req w) =
              Inr \<lparr>res_status = 200,
                   res_body = Some (JObj [(''success'', JBool True), (''zoho'', st)])\<rparr>"
    if "scalar data \<and> log_append oc = None"
  proof -
    from that have s: "scalar data" and l: "log_append oc = None"
      by simp_all
    from csvRow_scalar [OF s] obtain line where "csvRow rt (bookings_csv w \<noteq> None) data = Inr line"
      by blast
    from scalar_defined [OF s] this l show ?thesis
      by (rule ok)
  qed
  have two: "\<exists>st. fst (server rt e oc req w) =
              Inr \<lparr>res_status = 200,
                   res_body = Some (JObj [(''success'', JBool True), (''zoho'', st)])\<rparr>"
    if "\<not> nullish data \<and> csvRow rt (bookings_csv w \<noteq> None) data = Inr row \<and> log_append oc = None"
    by (rule ok [OF conjunct1 [OF that] conjunct1 [OF conjunct2 [OF that]]
          conjunct2 [OF conjunct2 [OF that]]])
  have three: "server rt e oc req w =
             (Inr \<lparr>res_status = 400,
                   res_body = Some (JObj [(''success'', JBool False),
                                          (''error'', JStr (cannot_read JNull ''name''))])\<rparr>,
              w)"
    if "data = JNull"
  proof -
    from that assms(4) have "json_parse rt (req_body req) = Inr JNull"
      by simp
    from save_null [OF assms(3) this] show ?thesis
      unfolding server_post [OF assms(1,2)] by simp
  qed
  have four: "server rt e oc req w =
             (Inr \<lparr>res_status = 400,
                   res_body = Some (JObj [(''success'', JBool False), (''error'', JStr (message err))])\<rparr>,
              w)"
    if "\<not> nullish data \<and> csvRow rt (bookings_csv w \<noteq> None) data = Inl err"
  proof -
    have "save rt e oc (req_body req) w = (Inl err, w)"
      by (rule save_no_text [OF assms(3,4) conjunct1 [OF that] conjunct2 [OF that]])
    then show ?thesis
      unfolding server_post [OF assms(1,2)] by simp
  qed
  show ?thesis
    by (intro conjI impI; (erule one | erule two | erule three | erule four))
qed

text \<open>
  Claim C8, as the code has it. No exception leaves the handler: the server always
  answers. When the append to the local log fails, the \<open>catch\<close> of the handler turns
  the exception into the answer 400 with \<open>success: false\<close> and the text of the
  exception; nothing is written and no remote call is made. The append is attempted
  once the text of the row is built: where a member of the record has no string, the
  answer 400 carries the text of that type error instead.
\<close>

theorem log_failure_answered:
  "(\<exists>res. fst (server rt e oc req w) = Inr res)
   \<and> (req_method req = ''POST'' \<and> (req_url req = ''/save'' \<or> req_url req = ''/'')
        \<and> req_body req \<noteq> [] \<and> json_parse rt (req_body req) = Inr data
        \<and> \<not> nullish data \<and> csvRow rt (bookings_csv w \<noteq> None) data = Inr row
        \<and> log_append oc = Some io
      \<longrightarrow> server rt e oc req w =
            (Inr \<lparr>res_status = 400,
                  res_body = Some (JObj [(''success'', JBool False), (''error'', JStr (message io))])\<rparr>,
             w))
   \<and> (req_method req = ''POST'' \<and> (req_url req = ''/save'' \<or> req_url req = ''/'')
        \<and> req_body req \<noteq> [] \<and> json_parse rt (req_body req) = Inr data
        \<and> \<not> nullish data \<and> csvRow rt (bookings_csv w \<noteq> None) data = Inl err
        \<and> log_append oc = Some io
      \<longrightarrow> server rt e oc req w =
            (Inr \<lparr>res_status = 400,
                  res_body = Some (JObj [(''success'', JBool False), (''error'', JStr (message err))])\<rparr>,
             w))"
proof (intro conjI impI)
  show "\<exists>res. fst (server rt e oc req w) = Inr res"
    by (rule server_answers)
next
  assume a: "req_method req = ''POST'' \<and> (req_url req = ''/save'' \<or> req_url req = ''/'')
        \<and> req_body req \<noteq> [] \<and> json_parse rt (req_body req) = Inr data
        \<and> \<not> nullish data \<and> csvRow rt (bookings_csv w \<noteq> None) data = Inr row
        \<and> log_append oc = Some io"
  then have b: "req_body req \<noteq> []" and p: "json_parse rt (req_body req) = Inr data"
    and n: "\<not> nullish data" and r: "csvRow rt (bookings_csv w \<noteq> None) data = Inr row"
    and l: "log_append oc = Some io"
    by blast+
  from b p n r l have "save rt e oc (req_body req) w = (Inl io, w)"
    by (rule save_log_failure)
  moreover from a have "req_method req = ''POST''" and "req_url req = ''/save'' \<or> req_url req = ''/''"
    by blast+
  ultimately show "server rt e oc req w =
            (Inr \<lparr>res_status = 400,
                  res_body = Some (JObj [(''success'', JBool False), (''error'', JStr (message io))])\<rparr>,
             w)"
    by (simp add: server_post)
next
  assume a: "req_method req = ''POST'' \<and> (req_url req = ''/save'' \<or> req_url req = ''/'')
        \<and> req_body req \<noteq> [] \<and> json_parse rt (req_body req) = Inr data
        \<and> \<not> nullish data \<and> csvRow rt (bookings_csv w \<noteq> None) data = Inl err
        \<and> log_append oc = Some io"
  then have b: "req_body req \<noteq> []" and p: "json_parse rt (req_body req) = Inr data"
    and n: "\<not> nullish data" and r: "csvRow rt (bookings_csv w \<noteq> None) data = Inl err"
    by blast+
  from b p n r have "save rt e oc (req_body req) w = (Inl err, w)"
    by (rule save_no_text)
  moreover from a have "req_method req = ''POST''" and "req_url req = ''/save'' \<or> req_url req = ''/''"
    by blast+
  ultimately show "server rt e oc req w =
            (Inr \<lparr>res_status = 400,
                  res_body = Some (JObj [(''success'', JBool False), (''error'', JStr (message err))])\<rparr>,
             w)"
    by (simp add: server_post)
qed


lemma post_save_fields:
  "req_method (post_save body) = ''POST''"
  "req_url (post_save body) = ''/save'' \<or> req_url (post_save body) = ''/''"
  "req_body (post_save body) = body"
  by (simp_all add: post_save_def)

lemma sample_parse:
  "json_parse sample_runtime ''5'' = Inr (JNum (Fin 5))"
  "json_parse sample_runtime ''null'' = Inr JNull"
  "json_parse sample_runtime asha_text = Inr asha"
  "json_parse sample_runtime sealed_text = Inr sealed"
  by code_simp+

lemma sample_rows:
  "csvRow sample_runtime False asha = Inr (''name'' @ [CHR 0x0A, CHR 0x22] @ ''Asha'' @ [CHR 0x22, CHR 0x0A])"
  "csvRow sample_runtime True asha = Inr ([CHR 0x22] @ ''Asha'' @ [CHR 0x22, CHR 0x0A])"
  "csvRow sample_runtime False sealed = Inl (TypeError ''Cannot convert object to primitive value'')"
  by code_simp+

lemma sample_new_log:
  "bookings_csv fresh_world = None"
  "csvRow sample_runtime (bookings_csv fresh_world \<noteq> None) asha
     = Inr (''name'' @ [CHR 0x0A, CHR 0x22] @ ''Asha'' @ [CHR 0x22, CHR 0x0A])"
  "csvRow sample_runtime (bookings_csv fresh_world \<noteq> None) sealed
     = Inl (TypeError ''Cannot convert object to primitive value'')"
  "\<not> nullish asha" "\<not> nullish sealed"
  "req_body (post_save asha_text) \<noteq> []" "req_body (post_save sealed_text) \<noteq> []"
proof -
  show x: "bookings_csv fresh_world = None"
    by (simp add: fresh_world_def)
  show "csvRow sample_runtime (bookings_csv fresh_world \<noteq> None) asha
     = Inr (''name'' @ [CHR 0x0A, CHR 0x22] @ ''Asha'' @ [CHR 0x22, CHR 0x0A])"
    unfolding x using sample_rows(1) by simp
  show "csvRow sample_runtime (bookings_csv fresh_world \<noteq> None) sealed
     = Inl (TypeError ''Cannot convert object to primitive value'')"
    unfolding x using sample_rows(3) by simp
  show "\<not> nullish asha" "\<not> nullish sealed"
    by (simp_all add: nullish_def asha_def sealed_def)
  show "req_body (post_save asha_text) \<noteq> []" "req_body (post_save sealed_text) \<noteq> []"
    by (simp_all add: post_save_def asha_text_def sealed_text_def)
qed

theorem non_object_bodies_saved_witness:
  "json_parse sample_runtime ''5'' = Inr (JNum (Fin 5))
   \<and> (\<exists>st. fst (server sample_runtime (env_tokens None None) offline (post_save ''5'') fresh_world) =
           Inr \<lparr>res_status = 200,
                res_body = Some (JObj [(''success'', JBool True), (''zoho'', st)])\<rparr>)
   \<and> res_status (projr (fst (server sample_runtime (env_tokens None None) offline (post_save ''null'')
                                  fresh_world))) = 400
   \<and> server sample_runtime (env_tokens None None) offline (post_save sealed_text) fresh_world =
       (Inr \<lparr>res_status = 400,
             res_body = Some (JObj [(''success'', JBool False),
                                    (''error'', JStr ''Cannot convert object to primitive value'')])\<rparr>,
        fresh_world)"
proof -
  have b: "req_body (post_save ''5'') \<noteq> []" "req_body (post_save ''null'') \<noteq> []"
    "req_body (post_save sealed_text) \<noteq> []"
    by (simp_all add: post_save_def sealed_text_def)
  have p: "json_parse sample_runtime (req_body (post_save ''5'')) = Inr (JNum (Fin 5))"
    "json_parse sample_runtime (req_body (post_save ''null'')) = Inr JNull"
    "json_parse sample_runtime (req_body (post_save sealed_text)) = Inr sealed"
    by (simp_all add: post_save_fields sample_parse)
  have n: "scalar (JNum (Fin 5)) \<and> log_append offline = None"
    by (simp add: offline_def)
  from non_object_bodies_saved [OF post_save_fields(1,2) b(1) p(1), where oc = offline
      and e = "env_tokens None None" and w = fresh_world, THEN conjunct1, rule_format, OF n]
  have five: "\<exists>st. fst (server sample_runtime (env_tokens None None) offline (post_save ''5'') fresh_world) =
           Inr \<lparr>res_status = 200,
                res_body = Some (JObj [(''success'', JBool True), (''zoho'', st)])\<rparr>" .
  from non_object_bodies_saved [OF post_save_fields(1,2) b(2) p(2), where oc = offline
      and e = "env_tokens None None" and w = fresh_world,
      THEN conjunct2, THEN conjunct2, THEN conjunct1, rule_format, OF refl]
  have null: "res_status (projr (fst (server sample_runtime (env_tokens None None) offline
                 (post_save ''null'') fresh_world))) = 400"
    by simp
  have u: "\<not> nullish sealed
         \<and> csvRow sample_runtime (bookings_csv fresh_world \<noteq> None) sealed
             = Inl (TypeError ''Cannot convert object to primitive value'')"
    by (rule conjI [OF sample_new_log(5) sample_new_log(3)])
  from non_object_bodies_saved [OF post_save_fields(1,2) b(3) p(3), where oc = offline
      and w = fresh_world and e = "env_tokens None None"
      and err = "TypeError ''Cannot convert object to primitive value''",
      THEN conjunct2, THEN conjunct2, THEN conjunct2, rule_format, OF u]
  have sealed: "server sample_runtime (env_tokens None None) offline (post_save sealed_text) fresh_world =
       (Inr \<lparr>res_status = 400,
             res_body = Some (JObj [(''success'', JBool False),
                                    (''error'', JStr ''Cannot convert object to primitive value'')])\<rparr>,
        fresh_world)"
    by simp
  from sample_parse(1) five null sealed show ?thesis
    by (intro conjI)
qed

text \<open>
  Claim C10 as stated fails for the body \<open>null\<close>: it is accepted by the JSON parser
  and is not an object, yet reading \<open>data.name\<close> throws and the answer is status 400.
\<close>

theorem null_body_counterexample:
  "json_parse sample_runtime ''null'' = Inr JNull
   \<and> fst (server sample_runtime (env_tokens None None) offline (post_save ''null'') fresh_world) =
       Inr \<lparr>res_status = 400,
            res_body = Some (JObj [(''success'', JBool False),
              (''error'', JStr (''Cannot read properties of null (reading ''
                                 @ [CHR 0x27] @ ''name'' @ [CHR 0x27] @ '')''))])\<rparr>"
  by code_simp

theorem log_failure_answered_witness:
  "server sample_runtime (env_tokens None None)
      (offline\<lparr>log_append := Some (Error ''EROFS: read-only file system, open bookings.csv'')\<rparr>)
      (post_save asha_text) fresh_world =
     (Inr \<lparr>res_status = 400,
           res_body = Some (JObj [(''success'', JBool False),
             (''error'', JStr ''EROFS: read-only file system, open bookings.csv'')])\<rparr>,
      fresh_world)
   \<and> server sample_runtime (env_tokens None None)
      (offline\<lparr>log_append := Some (Error ''EROFS: read-only file system, open bookings.csv'')\<rparr>)
      (post_save sealed_text) fresh_world =
     (Inr \<lparr>res_status = 400,
           res_body = Some (JObj [(''success'', JBool False),
             (''error'', JStr ''Cannot convert object to primitive value'')])\<rparr>,
      fresh_world)"
proof -
  let ?oc = "offline\<lparr>log_append := Some (Error ''EROFS: read-only file system, open bookings.csv'')\<rparr>"
  have o: "log_append ?oc = Some (Error ''EROFS: read-only file system, open bookings.csv'')"
    by simp
  have h: "req_method (post_save asha_text) = ''POST''
       \<and> (req_url (post_save asha_text) = ''/save'' \<or> req_url (post_save asha_text) = ''/'')
       \<and> req_body (post_save asha_text) \<noteq> []
       \<and> json_parse sample_runtime (req_body (post_save asha_text)) = Inr asha
       \<and> \<not> nullish asha
       \<and> csvRow sample_runtime (bookings_csv fresh_world \<noteq> None) asha
           = Inr (''name'' @ [CHR 0x0A, CHR 0x22] @ ''Asha'' @ [CHR 0x22, CHR 0x0A])
       \<and> log_append ?oc = Some (Error ''EROFS: read-only file system, open bookings.csv'')"
    unfolding post_save_fields(3)
    by (intro conjI post_save_fields(1,2) sample_parse(3) sample_new_log(2,4) o)
       (rule sample_new_log(6) [unfolded post_save_fields(3)])
  have k: "req_method (post_save sealed_text) = ''POST''
       \<and> (req_url (post_save sealed_text) = ''/save'' \<or> req_url (post_save sealed_text) = ''/'')
       \<and> req_body (post_save sealed_text) \<noteq> []
       \<and> json_parse sample_runtime (req_body (post_save sealed_text)) = Inr sealed
       \<and> \<not> nullish sealed
       \<and> csvRow sample_runtime (bookings_csv fresh_world \<noteq> None) sealed
           = Inl (TypeError ''Cannot convert object to primitive value'')
       \<and> log_append ?oc = Some (Error ''EROFS: read-only file system, open bookings.csv'')"
    unfolding post_save_fields(3)
    by (intro conjI post_save_fields(1,2) sample_parse(4) sample_new_log(3,5) o)
       (rule sample_new_log(7) [unfolded post_save_fields(3)])
  from log_failure_answered [where rt = sample_runtime and e = "env_tokens None None" and oc = ?oc
      and req = "post_save asha_text" and w = fresh_world and data = asha
      and io = "Error ''EROFS: read-only file system, open bookings.csv''",
      THEN conjunct2, THEN conjunct1, rule_format, OF h]
  have one: "server sample_runtime (env_tokens None None) ?oc (post_save asha_text) fresh_world =
     (Inr \<lparr>res_status = 400,
           res_body = Some (JObj [(''success'', JBool False),
             (''error'', JStr ''EROFS: read-only file system, open bookings.csv'')])\<rparr>,
      fresh_world)"
    by simp
  from log_failure_answered [where rt = sample_runtime and e = "env_tokens None None" and oc = ?oc
      and req = "post_save sealed_text" and w = fresh_world and data = sealed
      and io = "Error ''EROFS: read-only file system, open bookings.csv''"
      and err = "TypeError ''Cannot convert object to primitive value''",
      THEN conjunct2, THEN conjunct2, rule_format, OF k]
  have two: "server sample_runtime (env_tokens None None) ?oc (post_save sealed_text) fresh_world =
     (Inr \<lparr>res_status = 400,
           res_body = Some (JObj [(''success'', JBool False),
             (''error'', JStr ''Cannot convert object to primitive value'')])\<rparr>,
      fresh_world)"
    by simp
  from one two show ?thesis
    by (intro conjI)
qed

text \<open>
  Claim C8 as stated fails: with a log that cannot be written, the outcome of a
  submission is the answer 400, not an exception that leaves the handler.
\<close>

theorem log_failure_counterexample:
  "fst (server sample_runtime (env_tokens None None)
      (offline\<lparr>log_append := Some (Error ''EACCES: permission denied, open bookings.csv'')\<rparr>)
      (post_save asha_text) fresh_world) =
     Inr \<lparr>res_status = 400,
          res_body = Some (JObj [(''success'', JBool False),
            (''error'', JStr ''EACCES: permission denied, open bookings.csv'')])\<rparr>
   \<and> (\<forall>err. fst (server sample_runtime (env_tokens None None)
      (offline\<lparr>log_append := Some (Error ''EACCES: permission denied, open bookings.csv'')\<rparr>)
      (post_save asha_text) fresh_world) \<noteq> Inl err)"
proof -
  have "fst (server sample_runtime (env_tokens None None)
      (offline\<lparr>log_append := Some (Error ''EACCES: permission denied, open bookings.csv'')\<rparr>)
      (post_save asha_text) fresh_world) =
     Inr \<lparr>res_status = 400,
          res_body = Some (JObj [(''success'', JBool False),
            (''error'', JStr ''EACCES: permission denied, open bookings.csv'')])\<rparr>"
    by code_simp
  then show ?thesis
    by simp
qed





section \<open>The sheet appender: the header row\<close>

lemma first_cell_holds:
  "first_cell cells = JStr ''Date'' \<longleftrightarrow> holds_date (read_prop cells ''0'')"
  by (simp add: first_cell_def holds_date_def Let_def)

lemma holds_date_flat:
  "\<not> holds_date JUndefined" "\<not> holds_date (JNative n)" "\<not> holds_date (JStr s)"
    "\<not> holds_date (JNum x)" "\<not> holds_date (JBool b)"
proof -
  show "\<not> holds_date JUndefined"
    by (simp add: holds_date_def nullish_def)
  have "read_prop (JNative n) ''content'' \<noteq> JStr ''Date''"
    using inherited_flat [of "JNative n" "''content''"] by (auto simp: read_prop_def)
  then show "\<not> holds_date (JNative n)"
    by (simp add: holds_date_def)
  have "read_prop (JStr s) ''content'' \<noteq> JStr ''Date''"
    using inherited_flat [of "JStr s" "''content''"]
    by (auto simp: read_prop_def split: option.splits)
  then show "\<not> holds_date (JStr s)"
    by (simp add: holds_date_def)
  have "read_prop (JNum x) ''content'' \<noteq> JStr ''Date''"
    using inherited_flat [of "JNum x" "''content''"] by (auto simp: read_prop_def)
  then show "\<not> holds_date (JNum x)"
    by (simp add: holds_date_def)
  have "read_prop (JBool b) ''content'' \<noteq> JStr ''Date''"
    using inherited_flat [of "JBool b" "''content''"] by (auto simp: read_prop_def)
  then show "\<not> holds_date (JBool b)"
    by (simp add: holds_date_def)
qed

lemma holds_date_scalar_member:
  assumes "scalar v"
  shows "\<not> holds_date (read_prop v k)"
  using scalar_read [OF assms, of k] by (auto simp: holds_date_flat)

lemma holds_date_native_member: "\<not> holds_date (read_prop (JNative n) k)"
  using inherited_flat [of "JNative n" k] by (auto simp: read_prop_def holds_date_flat)

lemma show_nat_0: "show_nat 0 = ''0''"
  by (simp add: show_nat.simps)

lemma index_of_0: "index_of ''0'' (Suc n) = Some 0"
proof -
  have "[0..<Suc n] = 0 # [Suc 0..<Suc n]"
    by (rule upt_conv_Cons) simp
  then show ?thesis
    unfolding index_of_def by (simp add: show_nat_0 del: upt_Suc)
qed

lemma read_first: "read_prop (JArr (c # cs) ps) ''0'' = c"
  using index_of_0 [of "length cs"] by (simp add: read_prop_def del: upt_Suc)

lemma has_items_array: "has_items rt (JArr xs ps) = Inr (xs \<noteq> [])"
  by (simp add: has_items_def read_prop_def num_gt_def)

text \<open>The test that the loop applies to a row is the reading of the specification.\<close>

lemma row_test:
  assumes "has_items rt (read_prop row ''row_details'') = Inr some"
  shows "(some \<and> first_cell (read_prop row ''row_details'') = JStr ''Date'')
           = first_cell_holds_date rt row"
proof (cases "read_prop row ''row_details''")
  case JUndefined
  with assms show ?thesis
    by (simp add: has_items_def first_cell_holds_date_def)
next
  case JNull
  with assms show ?thesis
    by (simp add: has_items_def first_cell_holds_date_def)
next
  case (JBool b)
  then show ?thesis
    using holds_date_scalar_member [of "JBool b" "''0''"]
    by (simp add: first_cell_holds first_cell_holds_date_def)
next
  case (JNum n)
  then show ?thesis
    using holds_date_scalar_member [of "JNum n" "''0''"]
    by (simp add: first_cell_holds first_cell_holds_date_def)
next
  case (JStr s)
  then show ?thesis
    using holds_date_scalar_member [of "JStr s" "''0''"]
    by (simp add: first_cell_holds first_cell_holds_date_def)
next
  case (JArr xs ps)
  with assms have s: "some = (xs \<noteq> [])"
    by (simp add: has_items_array)
  show ?thesis
  proof (cases xs)
    case Nil
    with JArr s show ?thesis
      by (simp add: first_cell_holds_date_def)
  next
    case (Cons c cs)
    with JArr s show ?thesis
      by (simp add: first_cell_holds_date_def first_cell_holds read_first)
  qed
next
  case (JObj kvs)
  with assms show ?thesis
    by (auto simp: has_items_def first_cell_holds_date_def first_cell_holds split: sum.splits)
next
  case (JNative n)
  then show ?thesis
    using holds_date_native_member [of n "''0''"]
    by (simp add: first_cell_holds first_cell_holds_date_def)
qed

lemma scan_rows_found:
  "scan_rows rt rows = Inr found \<Longrightarrow> found = list_ex (first_cell_holds_date rt) rows"
proof (induction rows)
  case Nil
  then show ?case by simp
next
  case (Cons row rows)
  from Cons.prems obtain some where
    h: "has_items rt (read_prop row ''row_details'') = Inr some"
    and r: "(if some \<and> first_cell (read_prop row ''row_details'') = JStr ''Date'' then Inr True
             else scan_rows rt rows) = Inr found"
    by (auto simp: get_prop_def split: if_splits sum.splits)
  show ?case
  proof (cases "some \<and> first_cell (read_prop row ''row_details'') = JStr ''Date''")
    case True
    with r row_test [OF h] show ?thesis
      by simp
  next
    case False
    with r have "scan_rows rt rows = Inr found"
      by simp
    from Cons.IH [OF this] False row_test [OF h] show ?thesis
      by simp
  qed
qed

text \<open>A row that is a character of a string has no cells.\<close>

lemma character_rows: "\<not> list_ex (first_cell_holds_date rt) (map (\<lambda>c. JStr [c]) s)"
proof -
  have "\<not> first_cell_holds_date rt (JStr t)" for t
    using scalar_read [of "JStr t" "''row_details''"]
    by (auto simp: first_cell_holds_date_def)
  then show ?thesis
    by (simp add: list_ex_iff)
qed

lemma headerFound_rows:
  assumes "headerFound rt checked = Inr found"
  shows "found = list_ex (first_cell_holds_date rt) (returned_rows checked)"
proof -
  let ?details = "read_prop checked ''range_details''"
  from assms obtain some where h: "has_items rt ?details = Inr some"
    and r: "(if some then (case items ?details of Inl err \<Rightarrow> Inl err | Inr rows \<Rightarrow> scan_rows rt rows)
             else Inr False) = Inr found"
    by (auto simp: headerFound_def get_prop_def split: if_splits sum.splits)
  show ?thesis
  proof (cases some)
    case False
    with r have f: "\<not> found"
      by simp
    have "returned_rows checked = []"
      using h False by (cases ?details) (simp_all add: returned_rows_def has_items_array)
    with f show ?thesis
      by simp
  next
    case True
    with r obtain rows where i: "items ?details = Inr rows" and s: "scan_rows rt rows = Inr found"
      by (auto split: sum.splits)
    from scan_rows_found [OF s] have f: "found = list_ex (first_cell_holds_date rt) rows" .
    from i show ?thesis
    proof (cases ?details)
      case (JArr xs ps)
      with i f show ?thesis
        by (simp add: returned_rows_def)
    next
      case (JStr t)
      with i f character_rows [of rt t] show ?thesis
        by (simp add: returned_rows_def)
    qed simp_all
  qed
qed

lemma append_body_requests:
  assumes "getValidAccessToken rt e oc w = (Inr token, w1)" and "authorization rt token = Inr auth"
    and "mappedValues oc data = Inr vals"
    and "content_reply oc = Inr checked" and "headerFound rt checked = Inr found"
    and "csv_cells rt vals = Inr cells"
  shows "requests (snd (append_body rt e oc data w)) =
           requests w1 @
             [ContentGet (check_url e) auth,
              CsvAppend (append_url e)
                [(''worksheet_name'', ZOHO_SHEET_NAME e),
                 (''data'', (if found then [] else join '','' (map csv_quote headers) @ [CHR 0x0A])
                            @ join '','' cells)]
                auth]"
  using assms
  by (simp add: append_body_def csvContent_def sent_def Let_def split: sum.splits)

lemma append_body_no_text:
  assumes "getValidAccessToken rt e oc w = (Inr token, w1)" and "authorization rt token = Inr auth"
    and "mappedValues oc data = Inr vals"
    and "content_reply oc = Inr checked" and "headerFound rt checked = Inr found"
    and "csv_cells rt vals = Inl err"
  shows "append_body rt e oc data w = (Inl err, sent (ContentGet (check_url e) auth) w1)"
  using assms
  by (simp add: append_body_def csvContent_def Let_def)

lemma appendToZohoSheet_world:
  "snd (appendToZohoSheet rt e oc data w) = snd (append_body rt e oc data w)"
  by (simp add: appendToZohoSheet_def split: prod.splits sum.splits)

text \<open>
  Claim C6, as the code has it. \<open>appendToZohoSheet\<close> queries the range A1:A10 of the
  sheet. For every answer on which the scan of the rows completes, the header is found
  exactly when the first cell of some returned row holds the string \<open>Date\<close>. When the
  values of the row all have a string, the payload sent to the append call is the row
  of values, with the full header row and a line feed before it exactly when the header
  was not found. When a value has no string, nothing is sent to the append call and the
  result is the failure status with the text of the type error.
\<close>

theorem header_row_when_date_missing:
  assumes "getValidAccessToken rt e oc w = (Inr token, w1)" and "authorization rt token = Inr auth"
    and "mappedValues oc data = Inr vals"
    and "content_reply oc = Inr checked" and "headerFound rt checked = Inr found"
  shows "found = list_ex (first_cell_holds_date rt) (returned_rows checked)
       \<and> (\<exists>address. check_url e = address @ ''&range=A1:A10'')
       \<and> (csv_cells rt vals = Inr cells \<longrightarrow>
            requests (snd (appendToZohoSheet rt e oc data w)) =
              requests w1 @
                [ContentGet (check_url e) auth,
                 CsvAppend (append_url e)
                   [(''worksheet_name'', ZOHO_SHEET_NAME e),
                    (''data'',
                     (if list_ex (first_cell_holds_date rt) (returned_rows checked) then []
                      else join '','' (map csv_quote headers) @ [CHR 0x0A])
                     @ join '','' cells)]
                   auth])
       \<and> (csv_cells rt vals = Inl err \<longrightarrow>
            appendToZohoSheet rt e oc data w =
              (JObj [(''status'', JStr ''failure''), (''error'', JStr (message err))],
               sent (ContentGet (check_url e) auth) w1))"
proof -
  have f: "found = list_ex (first_cell_holds_date rt) (returned_rows checked)"
    using assms(5) by (rule headerFound_rows)
  have u: "\<exists>address. check_url e = address @ ''&range=A1:A10''"
    unfolding check_url_def by (metis append.assoc)
  have r: "requests (snd (appendToZohoSheet rt e oc data w)) =
              requests w1 @
                [ContentGet (check_url e) auth,
                 CsvAppend (append_url e)
                   [(''worksheet_name'', ZOHO_SHEET_NAME e),
                    (''data'',
                     (if list_ex (first_cell_holds_date rt) (returned_rows checked) then []
                      else join '','' (map csv_quote headers) @ [CHR 0x0A])
                     @ join '','' cells)]
                   auth]"
    if "csv_cells rt vals = Inr cells"
    unfolding appendToZohoSheet_world append_body_requests [OF assms that] f by simp
  have n: "appendToZohoSheet rt e oc data w =
              (JObj [(''status'', JStr ''failure''), (''error'', JStr (message err))],
               sent (ContentGet (check_url e) auth) w1)"
    if "csv_cells rt vals = Inl err"
    unfolding appendToZohoSheet_def append_body_no_text [OF assms that] by simp
  show ?thesis
    by (intro conjI impI; (rule f | rule u | erule r | erule n))
qed

lemma fresh_token:
  "getValidAccessToken sample_runtime (env_tokens None None) (online date_reply) stored_world
     = (Inr (JStr ''old''), stored_world)"
  "getValidAccessToken sample_runtime (env_tokens None None) (online two_cell_reply) stored_world
     = (Inr (JStr ''old''), stored_world)"
  by code_simp+

lemma sample_addresses:
  "check_url (env_tokens None None) =
     ''https://sheet.zoho.in/api/v2/book?method=worksheet.content.get&worksheet_name=Sheet1&range=A1:A10''"
  "append_url (env_tokens None None) = ''https://sheet.zoho.in/api/v2/book?method=worksheet.csvdata.append''"
  "ZOHO_SHEET_NAME (env_tokens None None) = ''Sheet1''"
  "authorization sample_runtime (JStr ''old'') = Inr ''Zoho-oauthtoken old''"
  by code_simp+

lemma sample_scans:
  "headerFound sample_runtime date_reply = Inr True"
  "headerFound sample_runtime two_cell_reply = Inr False"
  "list_ex (first_cell_holds_date sample_runtime) (returned_rows date_reply)"
  "list_ex some_cell_holds_date (returned_rows two_cell_reply)"
  "\<not> list_ex (first_cell_holds_date sample_runtime) (returned_rows two_cell_reply)"
  by code_simp+

lemma sample_cells:
  "mappedValues oc asha = Inr (JStr (now_iso oc) # JStr [] # JStr ''Asha'' # replicate 39 (JStr []))"
  "csv_cells sample_runtime (JStr t # JStr [] # JStr ''Asha'' # replicate 39 (JStr []))
     = Inr (csv_quote t # csv_quote [] # csv_quote ''Asha'' # replicate 39 (csv_quote []))"
proof -
  have "\<not> nullish asha"
    by (simp add: nullish_def asha_def)
  then show "mappedValues oc asha = Inr (JStr (now_iso oc) # JStr [] # JStr ''Asha'' # replicate 39 (JStr []))"
    by (simp add: mappedValues_def asha_def read_prop_def inherited_def object_prototype_def
        natives_def js_or_def eval_nat_numeral)
  have "csv_cells sample_runtime (replicate n (JStr [])) = Inr (replicate n (csv_quote []))" for n
    by (induction n) (simp_all add: csv_cell_def)
  then show "csv_cells sample_runtime (JStr t # JStr [] # JStr ''Asha'' # replicate 39 (JStr []))
     = Inr (csv_quote t # csv_quote [] # csv_quote ''Asha'' # replicate 39 (csv_quote []))"
    by (simp add: csv_cell_def)
qed

theorem header_row_when_date_missing_witness:
  "headerFound sample_runtime date_reply = Inr True
   \<and> list_ex (first_cell_holds_date sample_runtime) (returned_rows date_reply)
   \<and> requests (snd (appendToZohoSheet sample_runtime (env_tokens None None) (online date_reply) asha
                      stored_world)) =
       [ContentGet
          ''https://sheet.zoho.in/api/v2/book?method=worksheet.content.get&worksheet_name=Sheet1&range=A1:A10''
          ''Zoho-oauthtoken old'',
        CsvAppend ''https://sheet.zoho.in/api/v2/book?method=worksheet.csvdata.append''
          [(''worksheet_name'', ''Sheet1''),
           (''data'', join '',''
              (csv_quote ''1970-01-01T00:00:00.000Z'' # csv_quote [] # csv_quote ''Asha''
                 # replicate 39 (csv_quote [])))]
          ''Zoho-oauthtoken old'']"
proof -
  have c: "content_reply (online date_reply) = Inr date_reply"
    by (simp add: online_def)
  have i: "now_iso (online date_reply) = ''1970-01-01T00:00:00.000Z''"
    by (simp add: online_def)
  have w: "requests stored_world = []"
    by (simp add: stored_world_def)
  note t = header_row_when_date_missing [OF fresh_token(1) sample_addresses(4) sample_cells(1) c
      sample_scans(1), THEN conjunct2, THEN conjunct2, THEN conjunct1, rule_format, OF sample_cells(2)]
  have "requests (snd (appendToZohoSheet sample_runtime (env_tokens None None) (online date_reply) asha
                      stored_world)) =
       [ContentGet
          ''https://sheet.zoho.in/api/v2/book?method=worksheet.content.get&worksheet_name=Sheet1&range=A1:A10''
          ''Zoho-oauthtoken old'',
        CsvAppend ''https://sheet.zoho.in/api/v2/book?method=worksheet.csvdata.append''
          [(''worksheet_name'', ''Sheet1''),
           (''data'', join '',''
              (csv_quote ''1970-01-01T00:00:00.000Z'' # csv_quote [] # csv_quote ''Asha''
                 # replicate 39 (csv_quote [])))]
          ''Zoho-oauthtoken old'']"
    using t unfolding sample_addresses w i by (simp add: sample_scans(3))
  with sample_scans(1,3) show ?thesis
    by (intro conjI)
qed

text \<open>
  Claim C6 as stated fails for an answer with a row that holds \<open>Date\<close> in its second
  cell: a returned row contains a cell equal to \<open>Date\<close>, yet the header row is sent.
\<close>

theorem second_cell_counterexample:
  "list_ex some_cell_holds_date (returned_rows two_cell_reply)
   \<and> (\<exists>row. requests (snd (appendToZohoSheet sample_runtime (env_tokens None None)
                              (online two_cell_reply) asha stored_world)) =
           [ContentGet
              ''https://sheet.zoho.in/api/v2/book?method=worksheet.content.get&worksheet_name=Sheet1&range=A1:A10''
              ''Zoho-oauthtoken old'',
            CsvAppend ''https://sheet.zoho.in/api/v2/book?method=worksheet.csvdata.append''
              [(''worksheet_name'', ''Sheet1''),
               (''data'', join '','' (map csv_quote headers) @ [CHR 0x0A] @ row)]
              ''Zoho-oauthtoken old''])"
proof -
  have c: "content_reply (online two_cell_reply) = Inr two_cell_reply"
    by (simp add: online_def)
  have w: "requests stored_world = []"
    by (simp add: stored_world_def)
  have "requests (snd (appendToZohoSheet sample_runtime (env_tokens None None)
                              (online two_cell_reply) asha stored_world)) =
           [ContentGet
              ''https://sheet.zoho.in/api/v2/book?method=worksheet.content.get&worksheet_name=Sheet1&range=A1:A10''
              ''Zoho-oauthtoken old'',
            CsvAppend ''https://sheet.zoho.in/api/v2/book?method=worksheet.csvdata.append''
              [(''worksheet_name'', ''Sheet1''),
               (''data'', join '','' (map csv_quote headers) @ [CHR 0x0A]
                           @ join '','' (csv_quote (now_iso (online two_cell_reply)) # csv_quote []
                               # csv_quote ''Asha'' # replicate 39 (csv_quote [])))]
              ''Zoho-oauthtoken old'']"
    unfolding appendToZohoSheet_world
      append_body_requests [OF fresh_token(2) sample_addresses(4) sample_cells(1) c sample_scans(2)
        sample_cells(2)]
      sample_addresses w
    by simp
  with sample_scans(4) show ?thesis
    by blast
qed

section \<open>The field mapper: the order of resolution\<close>

lemma inherited_obj: "inherited (JObj m) k = inherited (JObj []) k"
  by (simp add: inherited_def)

lemma table_keys_plain:
  "list_all (\<lambda>entry. inherited (JObj []) (fst entry) = JUndefined) FIELD_MAPPINGS"
  by code_simp

lemma read_prop_obj:
  "read_prop (JObj m) k = (case map_of m k of Some x \<Rightarrow> x | None \<Rightarrow> inherited (JObj []) k)"
  by (simp add: read_prop_def split: option.splits) (simp add: inherited_def)

lemma key_loop_find:
  "key_loop data hL ks = map_option (read_prop data) (List.find (\<lambda>k. norm_key k = hL) ks)"
  by (induction ks) auto

lemma find_map_fst:
  "List.find P (map fst m) = map_option fst (List.find (\<lambda>kv. P (fst kv)) m)"
  by (induction m) auto

lemma find_holds: "List.find P xs = Some x \<Longrightarrow> P x"
  by (induction xs) (auto split: if_splits)

lemma find_first_of_key:
  "List.find (\<lambda>kv. P (fst kv)) m = Some kv \<Longrightarrow> map_of m (fst kv) = Some (snd kv)"
  by (induction m) (auto split: if_splits dest: find_holds)

lemma key_loop_record:
  "key_loop (JObj m) (norm_key h) (map fst m) = norm_match m h"
proof (cases "List.find (\<lambda>kv. norm_key (fst kv) = norm_key h) m")
  case None
  then show ?thesis
    by (simp add: key_loop_find find_map_fst norm_match_def)
next
  case (Some kv)
  from find_first_of_key [OF Some] have "read_prop (JObj m) (fst kv) = snd kv"
    by (simp add: read_prop_obj)
  with Some show ?thesis
    by (simp add: key_loop_find find_map_fst norm_match_def)
qed

lemma one_holder:
  assumes "distinct (concat (map (\<lambda>p. remdups (snd p)) tbl))"
  shows "length (filter (\<lambda>p. list_ex (\<lambda>a. a = h) (snd p)) tbl) \<le> 1"
  using assms
proof (induction tbl)
  case Nil
  then show ?case by simp
next
  case (Cons p tbl)
  show ?case
  proof (cases "h \<in> set (snd p)")
    case True
    with Cons.prems have "\<forall>q\<in>set tbl. h \<notin> set (snd q)"
      by auto
    then have "filter (\<lambda>p. list_ex (\<lambda>a. a = h) (snd p)) tbl = []"
      by (simp add: list_ex_iff filter_empty_conv)
    then show ?thesis
      by simp
  next
    case False
    with Cons show ?thesis
      by (simp add: list_ex_iff)
  qed
qed

lemma aliases_distinct:
  "distinct (concat (map (\<lambda>p. remdups (snd p))
     (map (\<lambda>entry. (fst entry, map norm_alias (snd entry))) FIELD_MAPPINGS)))"
  unfolding norm_table by code_simp


lemma one_entry:
  "length (filter (\<lambda>entry. list_ex (\<lambda>a. norm_alias a = h) (snd entry)) FIELD_MAPPINGS) \<le> 1"
proof -
  have "length (filter (\<lambda>entry. list_ex (\<lambda>a. norm_alias a = h) (snd entry)) FIELD_MAPPINGS)
      = length (map fst (filter (\<lambda>entry. list_ex (\<lambda>a. norm_alias a = h) (snd entry)) FIELD_MAPPINGS))"
    by simp
  also have "\<dots> = length (filter (\<lambda>p. list_ex (\<lambda>a. a = h) (snd p))
              (map (\<lambda>entry. (fst entry, map norm_alias (snd entry))) FIELD_MAPPINGS))"
    unfolding filter_norm by simp
  also have "\<dots> \<le> 1"
    using aliases_distinct by (rule one_holder)
  finally show ?thesis .
qed

lemma find_filter:
  "List.find P xs = (case filter P xs of [] \<Rightarrow> None | x # rest \<Rightarrow> Some x)"
  by (induction xs) auto

lemma alias_loop_record:
  assumes "\<forall>kv\<in>set m. snd kv \<noteq> JUndefined"
  shows "alias_loop (JObj m) (norm_key h) FIELD_MAPPINGS = alias_match m h"
proof -
  let ?P = "\<lambda>entry. list_ex (\<lambda>a. norm_alias a = norm_key h) (snd entry)"
  have v: "x \<noteq> JUndefined" if "map_of m k = Some x" for k x
    using map_of_SomeD [OF that] assms by auto
  consider "filter ?P FIELD_MAPPINGS = []" | entry where "filter ?P FIELD_MAPPINGS = [entry]"
    using one_entry [of "norm_key h"] by (cases "filter ?P FIELD_MAPPINGS") (auto simp: Suc_le_eq)
  then show ?thesis
  proof cases
    case 1
    then show ?thesis
      by (simp add: alias_loop_find alias_match_def find_filter [of ?P])
  next
    case 2
    then have "entry \<in> set (filter ?P FIELD_MAPPINGS)"
      by simp
    then have "entry \<in> set FIELD_MAPPINGS"
      by simp
    with table_keys_plain have "inherited (JObj []) (fst entry) = JUndefined"
      by (simp add: list_all_iff)
    then have "read_prop (JObj m) (fst entry) = (case map_of m (fst entry) of Some x \<Rightarrow> x | None \<Rightarrow> JUndefined)"
      by (simp add: read_prop_obj split: option.splits)
    with 2 v [of "fst entry"] show ?thesis
      by (auto simp: alias_loop_find alias_match_def find_filter [of ?P] split: option.splits)
  qed
qed

text \<open>
  Outside the names that every object inherits, \<open>getBestMatch\<close> resolves in the order
  of the specification: the exact key, then the first key with the normal form of the
  header, then the key of the table entry that lists the header as an alias; when none
  of them matches the result is undefined, and no exception is thrown.
\<close>

lemma getBestMatch_in_order:
  assumes "inherited (JObj []) header = JUndefined" and "\<forall>kv\<in>set members. snd kv \<noteq> JUndefined"
  shows "getBestMatch (JObj members) header =
           Inr (case resolve_in_order members header of Some v \<Rightarrow> v | None \<Rightarrow> JUndefined)"
proof (cases "map_of members header")
  case None
  then have "read_prop (JObj members) header = JUndefined"
    using assms(1) by (simp add: read_prop_obj)
  then show ?thesis
    using None
    by (simp add: getBestMatch_def get_prop_def nullish_def key_loop_record Let_def
        alias_loop_record [OF assms(2)] resolve_in_order_def exact_match_def
        split: option.splits)
next
  case (Some v)
  then have "v \<noteq> JUndefined"
    using map_of_SomeD [OF Some] assms(2) by auto
  with Some show ?thesis
    by (simp add: getBestMatch_def get_prop_def nullish_def read_prop_obj
        resolve_in_order_def exact_match_def)
qed

lemma headers_plain: "list_all (\<lambda>h. inherited (JObj []) h = JUndefined) headers"
  by code_simp

text \<open>
  Claim C7, as the code has it. For every record, given by its members as a JSON text
  has them (none is undefined), and every header that is not the name of a member that
  every object inherits, so for each of the 42 headers of the sheet, the function
  \<open>getBestMatch\<close> resolves in the order of the specification, the first match
  winning: the exact key, then the first key with the normal form of the header, then
  the key of the table entry that lists the header as an alias; when none of them
  matches the result is undefined, and no exception is thrown.
\<close>

theorem getBestMatch_order:
  assumes "\<forall>kv\<in>set members. snd kv \<noteq> JUndefined"
    and "header \<in> set headers \<or> inherited (JObj []) header = JUndefined"
  shows "getBestMatch (JObj members) header =
           Inr (case resolve_in_order members header of Some v \<Rightarrow> v | None \<Rightarrow> JUndefined)"
proof -
  from assms(2) headers_plain have "inherited (JObj []) header = JUndefined"
    by (auto simp: list_all_iff)
  from this assms(1) show ?thesis
    by (rule getBestMatch_in_order)
qed

lemma sample_orders:
  "resolve_in_order [(''name'', JStr ''Asha'')] ''Full Name'' = Some (JStr ''Asha'')"
  "resolve_in_order [(''FULL_NAME'', JStr ''Bela''), (''name'', JStr ''Asha'')] ''Full Name''
     = Some (JStr ''Bela'')"
  "resolve_in_order [(''name'', JStr ''Asha'')] ''Budget'' = None"
  "''Full Name'' \<in> set headers" "''Budget'' \<in> set headers"
  by code_simp+

theorem getBestMatch_order_witness:
  "getBestMatch (JObj [(''name'', JStr ''Asha'')]) ''Full Name'' = Inr (JStr ''Asha'')
   \<and> getBestMatch (JObj [(''FULL_NAME'', JStr ''Bela''), (''name'', JStr ''Asha'')]) ''Full Name''
       = Inr (JStr ''Bela'')
   \<and> getBestMatch (JObj [(''name'', JStr ''Asha'')]) ''Budget'' = Inr JUndefined"
proof -
  have a: "\<forall>kv\<in>set [(''name'', JStr ''Asha'')]. snd kv \<noteq> JUndefined"
    by simp
  have b: "\<forall>kv\<in>set [(''FULL_NAME'', JStr ''Bela''), (''name'', JStr ''Asha'')]. snd kv \<noteq> JUndefined"
    by simp
  from getBestMatch_order [OF a disjI1 [OF sample_orders(4)]]
  have one: "getBestMatch (JObj [(''name'', JStr ''Asha'')]) ''Full Name'' = Inr (JStr ''Asha'')"
    unfolding sample_orders by simp
  from getBestMatch_order [OF b disjI1 [OF sample_orders(4)]]
  have two: "getBestMatch (JObj [(''FULL_NAME'', JStr ''Bela''), (''name'', JStr ''Asha'')]) ''Full Name''
       = Inr (JStr ''Bela'')"
    unfolding sample_orders by simp
  from getBestMatch_order [OF a disjI1 [OF sample_orders(5)]]
  have three: "getBestMatch (JObj [(''name'', JStr ''Asha'')]) ''Budget'' = Inr JUndefined"
    unfolding sample_orders by simp
  from one two three show ?thesis
    by (intro conjI)
qed

text \<open>
  Claim C7 as stated fails for a header that is the name of an inherited member: the
  test of step 1, \<open>data[header] !== undefined\<close>, also sees the members that every
  object inherits, so for the empty record and the header \<open>constructor\<close>, where no
  step of the specification matches, \<open>getBestMatch\<close> returns a built-in function
  instead of undefined.
\<close>

theorem getBestMatch_inherited_member:
  "getBestMatch (JObj []) ''constructor'' = Inr (JNative ''Object.prototype.constructor'')
   \<and> resolve_in_order [] ''constructor'' = None"
  by code_simp
end
